theory Spec2Isabelle
  imports Main "HOL-Library.Word"
begin

section \<open>Values, objects and errors\<close>

text \<open>
  The module \<open>src/lib/config.ts\<close> builds untyped option objects and hands them to
  other libraries. Its values are modelled by one datatype of JavaScript values. A
  number is an \<open>int\<close>: every number the module handles is a port, a size or a count.
  A \<open>Buffer\<close> is a list of bytes. An object is the list of its own properties in
  insertion order. \<open>JRef\<close> is a function or a host object that the module only passes
  on (\<open>process.stdout\<close>, a serializer), identified by its name.
\<close>

type_synonym byte = "8 word"

datatype jsval =
    JUndefined
  | JNull
  | JBool bool
  | JNum int
  | JStr string
  | JBuf "byte list"
  | JArr "jsval list"
  | JObj "(string \<times> jsval) list"
  | JRef string

text \<open>
  What the module can throw: an \<open>Error\<close> with its message, the \<open>TypeError\<close> of a
  property access on \<open>undefined\<close> or \<open>null\<close>, the failure of
  \<open>fs.readFileSync\<close> on a path, and the rejection of a setting by
  \<open>convictConf.validate()\<close>, with the setting's key and the format it was declared
  with (one of the five formats the schema uses).
\<close>

datatype format = F_ipaddress | F_port | F_integer | F_String | F_Boolean

datatype error =
    Error string
  | TypeError
  | ReadError string
  | ValidationError string format

text \<open>JavaScript's truthiness, as used by \<open>if (x)\<close>, \<open>!x\<close> and \<open>x && y\<close>.\<close>

fun truthy :: "jsval \<Rightarrow> bool" where
  "truthy JUndefined = False"
| "truthy JNull = False"
| "truthy (JBool b) = b"
| "truthy (JNum n) = (n \<noteq> 0)"
| "truthy (JStr s) = (s \<noteq> [])"
| "truthy (JBuf b) = True"
| "truthy (JArr xs) = True"
| "truthy (JObj fs) = True"
| "truthy (JRef r) = True"

text \<open>
  An object written as a literal inherits from \<open>Object.prototype\<close>. Both the \<open>in\<close>
  operator and a property read look at the object's own properties first and at the
  prototype's after.
\<close>

definition object_prototype :: "(string \<times> jsval) list" where
  "object_prototype =
     [(''constructor'', JRef ''Object''),
      (''toString'', JRef ''Object.prototype.toString''),
      (''toLocaleString'', JRef ''Object.prototype.toLocaleString''),
      (''valueOf'', JRef ''Object.prototype.valueOf''),
      (''hasOwnProperty'', JRef ''Object.prototype.hasOwnProperty''),
      (''isPrototypeOf'', JRef ''Object.prototype.isPrototypeOf''),
      (''propertyIsEnumerable'', JRef ''Object.prototype.propertyIsEnumerable''),
      (''__proto__'', JRef ''Object.prototype''),
      (''__defineGetter__'', JRef ''Object.prototype.__defineGetter__''),
      (''__defineSetter__'', JRef ''Object.prototype.__defineSetter__''),
      (''__lookupGetter__'', JRef ''Object.prototype.__lookupGetter__''),
      (''__lookupSetter__'', JRef ''Object.prototype.__lookupSetter__'')]"

definition js_in :: "string \<Rightarrow> (string \<times> jsval) list \<Rightarrow> bool" where
  "js_in k fs = (map_of fs k \<noteq> None \<or> map_of object_prototype k \<noteq> None)"

definition js_index :: "(string \<times> jsval) list \<Rightarrow> string \<Rightarrow> jsval" where
  "js_index fs k =
     (case map_of fs k of
        Some v \<Rightarrow> v
      | None \<Rightarrow> (case map_of object_prototype k of Some v \<Rightarrow> v | None \<Rightarrow> JUndefined))"

text \<open>
  \<open>v.k\<close>: a \<open>TypeError\<close> on \<open>undefined\<close> and \<open>null\<close>; on an object the property
  or \<open>undefined\<close>; on the other values \<open>undefined\<close> for every property name the
  module reads.
\<close>

fun js_get :: "jsval \<Rightarrow> string \<Rightarrow> error + jsval" where
  "js_get JUndefined k = Inl TypeError"
| "js_get JNull k = Inl TypeError"
| "js_get (JObj fs) k = Inr (js_index fs k)"
| "js_get v k = Inr JUndefined"

text \<open>
  \<open>o[k] = v\<close> on the property list: an existing own property keeps its place, a new
  one goes last.
\<close>

fun obj_set :: "string \<Rightarrow> jsval \<Rightarrow> (string \<times> jsval) list \<Rightarrow> (string \<times> jsval) list" where
  "obj_set k v [] = [(k, v)]"
| "obj_set k v ((k', v') # fs) =
     (if k' = k then (k, v) # fs else (k', v') # obj_set k v fs)"

text \<open>
  \<open>o.k = v\<close> on a value. Objects are values here, not references: the caller writes
  the updated object back where it came from. The module assigns only to objects it
  has built itself.
\<close>

fun set_prop :: "jsval \<Rightarrow> string \<Rightarrow> jsval \<Rightarrow> jsval" where
  "set_prop (JObj fs) k v = JObj (obj_set k v fs)"
| "set_prop w k v = w"

text \<open>
  \<open>util.format\<close> for the placeholder the module uses, \<open>%s\<close>, filled with string
  arguments from left to right. A placeholder with no argument left stays as it is;
  arguments left over are appended, each after a space.
\<close>

fun util_format :: "string \<Rightarrow> string list \<Rightarrow> string" where
  "util_format [] args = concat (map (\<lambda>a. CHR '' '' # a) args)"
| "util_format [c] args = c # util_format [] args"
| "util_format (c # d # f) args =
     (if c = CHR ''%'' \<and> d = CHR ''s''
      then (case args of
              [] \<Rightarrow> c # d # util_format f []
            | a # as \<Rightarrow> a @ util_format f as)
      else c # util_format (d # f) args)"

section \<open>The validated store\<close>

text \<open>
  After \<open>convictConf.validate()\<close> every setting has a value of its declared format.
  The store is a record with one field for each entry of the schema (lines 31-229),
  named by the entry's dotted path: \<open>convictConf.get('api.host')\<close> is \<open>api_host c\<close>.
\<close>

record config =
  api_host :: string
  api_port :: int
  api_authenticationMode :: string
  api_authenticationAppName :: string
  port :: int
  expiration :: int
  https_enable :: bool
  https_ca :: string
  https_cert :: string
  https_key :: string
  https_crl :: string
  logging_stdout :: bool
  logging_stdoutLevel :: string
  logging_logfile :: string
  logging_logfileLevel :: string
  logging_reqBody :: bool
  logging_clientDetail :: bool
  service_name :: string
  service_version :: string
  maxBodySize :: int
  throttle_burst :: int
  throttle_rate :: int
  websocket_socket_io_enable :: bool
  websocket_socket_io_port :: int
  websocket_ws_enable :: bool
  websocket_ws_port :: int
  longpoll_maxbuffersize :: int
  longpoll_pollfrequency :: int
  longpoll_polltimeout :: int

text \<open>The defaults the schema declares.\<close>

definition default_config :: config where
  "default_config =
     \<lparr> api_host = ''127.0.0.1'',
       api_port = 8194,
       api_authenticationMode = ''APPLICATION_ONLY'',
       api_authenticationAppName = '''',
       port = 80,
       expiration = 5,
       https_enable = False,
       https_ca = ''../keys/bloomberg-ca-crt.pem'',
       https_cert = ''../keys/hackathon-crt.pem'',
       https_key = ''../keys/hackathon-key.pem'',
       https_crl = '''',
       logging_stdout = True,
       logging_stdoutLevel = ''info'',
       logging_logfile = ''blpapi-http.log'',
       logging_logfileLevel = ''trace'',
       logging_reqBody = False,
       logging_clientDetail = False,
       service_name = ''BLPAPI-HTTP'',
       service_version = ''1.0.0'',
       maxBodySize = 1024,
       throttle_burst = 100,
       throttle_rate = 50,
       websocket_socket_io_enable = True,
       websocket_socket_io_port = 3001,
       websocket_ws_enable = True,
       websocket_ws_port = 3002,
       longpoll_maxbuffersize = 50,
       longpoll_pollfrequency = 100,
       longpoll_polltimeout = 30000 \<rparr>"

section \<open>What the module reads and what it leaves behind\<close>

text \<open>
  The initialisation block (lines 26-351) is modelled from the validated store on.
  Besides the store it reads the file system (\<open>fs.readFileSync\<close>), resolves paths
  against the module's directory (\<open>path.resolve(__dirname, p)\<close>, a parameter) and
  updates the serializer table of the logging library (\<open>bunyan.stdSerializers\<close>,
  whose content at load time is a parameter).
\<close>

record inputs =
  store :: config
  files :: "string \<Rightarrow> byte list option"
  path_resolve :: "string \<Rightarrow> string"
  bunyan_stdSerializers :: "(string \<times> jsval) list"

definition readFileSync :: "(string \<Rightarrow> byte list option) \<Rightarrow> string \<Rightarrow> error + jsval" where
  "readFileSync fs p = (case fs p of None \<Rightarrow> Inl (ReadError p) | Some b \<Rightarrow> Inr (JBuf b))"

text \<open>
  The exported \<open>emitter\<close> is an \<open>events.EventEmitter\<close>. Its model keeps the
  subscriptions (event name and listener, in the order of registration) and a log of
  the listener calls made so far, each with the arguments passed: \<open>emit\<close> calls every
  listener registered for the event once for each of its registrations, in order.
\<close>

record EventEmitter =
  listeners :: "(string \<times> nat) list"
  delivered :: "(nat \<times> jsval list) list"

definition new_EventEmitter :: EventEmitter where
  "new_EventEmitter = \<lparr> listeners = [], delivered = [] \<rparr>"

definition subscribers :: "string \<Rightarrow> EventEmitter \<Rightarrow> nat list" where
  "subscribers ev em = map snd (filter (\<lambda>(e, l). e = ev) (listeners em))"

definition emitter_on :: "string \<Rightarrow> nat \<Rightarrow> EventEmitter \<Rightarrow> EventEmitter" where
  "emitter_on ev l em = em\<lparr> listeners := listeners em @ [(ev, l)] \<rparr>"

definition emitter_emit :: "string \<Rightarrow> jsval list \<Rightarrow> EventEmitter \<Rightarrow> EventEmitter" where
  "emitter_emit ev args em =
     em\<lparr> delivered := delivered em @ map (\<lambda>l. (l, args)) (subscribers ev em) \<rparr>"

text \<open>
  The module's state: the two module variables \<open>otherConf\<close> (the own properties of
  an object literal) and \<open>convictConf\<close>, the emitter, the paths on which an
  \<open>fs.watch\<close> callback is armed, and the serializer table.
\<close>

record state =
  otherConf :: "(string \<times> jsval) list"
  convictConf :: config
  emitter :: EventEmitter
  watchers :: "string list"
  stdSerializers :: "(string \<times> jsval) list"

section \<open>The option bundles\<close>

text \<open>The two serializers installed at lines 239-254.\<close>

definition res_serializer :: "jsval \<Rightarrow> error + jsval" where
  "res_serializer res =
     (if \<not> truthy res then Inr res
      else (case js_get res ''statusCode'' of
              Inl e \<Rightarrow> Inl e
            | Inr sc \<Rightarrow>
                (if \<not> truthy sc then Inr res
                 else (case js_get res ''_headers'' of
                         Inl e \<Rightarrow> Inl e
                       | Inr h \<Rightarrow> Inr (JObj [(''statusCode'', sc), (''header'', h)])))))"

definition cert_serializer :: "jsval \<Rightarrow> error + jsval" where
  "cert_serializer cert =
     (if \<not> truthy cert then Inr cert
      else (case js_get cert ''subject'' of
              Inl e \<Rightarrow> Inl e
            | Inr subject \<Rightarrow>
                (case js_get subject ''CN'' of
                   Inl e \<Rightarrow> Inl e
                 | Inr cn \<Rightarrow>
                     (case js_get cert ''fingerprint'' of
                        Inl e \<Rightarrow> Inl e
                      | Inr fp \<Rightarrow> Inr (JObj [(''CN'', cn), (''fingerprint'', fp)])))))"

definition install_serializers :: "(string \<times> jsval) list \<Rightarrow> (string \<times> jsval) list" where
  "install_serializers tab =
     obj_set ''cert'' (JRef ''stdSerializers.cert'')
       (obj_set ''res'' (JRef ''stdSerializers.res'') tab)"

text \<open>Lines 255-267.\<close>

definition loggerOptions :: "config \<Rightarrow> (string \<times> jsval) list \<Rightarrow> jsval" where
  "loggerOptions c serializers =
     (let streams =
            [JObj [(''level'', JStr (logging_logfileLevel c)),
                   (''path'', JStr (logging_logfile c))]]
            @ (if logging_stdout c
               then [JObj [(''level'', JStr (logging_stdoutLevel c)),
                           (''stream'', JRef ''process.stdout'')]]
               else [])
      in JObj [(''name'', JStr (service_name c)),
               (''streams'', JArr streams),
               (''serializers'', JObj serializers)])"

text \<open>Lines 270-273.\<close>

definition bodyParserOptions :: "config \<Rightarrow> jsval" where
  "bodyParserOptions c =
     JObj [(''maxBodySize'', JNum (maxBodySize c)),
           (''mapParams'', JBool False)]"

text \<open>Lines 276-286.\<close>

definition throttleOptions :: "config \<Rightarrow> jsval" where
  "throttleOptions c =
     JObj [(''burst'', JNum (throttle_burst c)),
           (''rate'', JNum (throttle_rate c)),
           (''ip'', JBool True),
           (''overrides'',
              JObj [(''127.0.0.1'', JObj [(''rate'', JNum 0), (''burst'', JNum 0)])])]"

text \<open>
  Lines 289-317. The result is the bundle and the paths on which a watch was armed.
  The three files are read in the order of the object literal: key, certificate,
  trust anchor; the first failing read ends the initialisation. \<open>fs.watch\<close> is
  taken to succeed on the path of a file that has just been read.
\<close>

definition serverOptions :: "inputs \<Rightarrow> error + (jsval \<times> string list)" where
  "serverOptions inp =
     (let c = store inp;
          so = JObj [(''name'', JStr (service_name c)),
                     (''version'', JStr (service_version c)),
                     (''acceptable'', JArr [JStr ''application/json''])]
      in if https_enable c then
           (case readFileSync (files inp) (path_resolve inp (https_key c)) of
              Inl e \<Rightarrow> Inl e
            | Inr key \<Rightarrow>
           (case readFileSync (files inp) (path_resolve inp (https_cert c)) of
              Inl e \<Rightarrow> Inl e
            | Inr cert \<Rightarrow>
           (case readFileSync (files inp) (path_resolve inp (https_ca c)) of
              Inl e \<Rightarrow> Inl e
            | Inr ca \<Rightarrow>
              (let hso = JObj [(''key'', key), (''cert'', cert), (''ca'', ca),
                               (''requestCert'', JBool True),
                               (''rejectUnauthorized'', JBool True)]
               in if https_crl c \<noteq> [] then
                    (let crlPath = path_resolve inp (https_crl c)
                     in (case readFileSync (files inp) crlPath of
                           Inl e \<Rightarrow> Inl e
                         | Inr crl \<Rightarrow>
                             Inr (set_prop so ''httpsServerOptions''
                                    (set_prop hso ''crl'' crl),
                                  [crlPath])))
                  else Inr (set_prop so ''httpsServerOptions'' hso, [])))))
         else Inr (so, []))"

text \<open>Lines 320-349.\<close>

definition sessionOptions :: "config \<Rightarrow> error + jsval" where
  "sessionOptions c =
     (let blpapiSessionOptions =
            JObj [(''serverHost'', JStr (api_host c)),
                  (''serverPort'', JNum (api_port c))];
          appName = api_authenticationAppName c
      in if [] \<noteq> appName then
           let mode = api_authenticationMode c
           in if ''APPLICATION_ONLY'' \<noteq> mode
              then Inl (Error (util_format ''Bad value for api.authenticationMode: %s'' [mode]))
              else
                let authenticationOptions =
                      util_format
                        (''AuthenticationMode=%s;''
                         @ ''ApplicationAuthenticationType=APPNAME_AND_KEY;''
                         @ ''ApplicationName=%s'')
                        [mode, appName]
                in Inr (JObj [(''blpapiSessionOptions'',
                                 set_prop blpapiSessionOptions ''authenticationOptions''
                                   (JStr authenticationOptions)),
                              (''authorizeOnStartup'', JBool True)])
         else Inr (JObj [(''blpapiSessionOptions'', blpapiSessionOptions),
                         (''authorizeOnStartup'', JBool False)]))"

text \<open>
  The whole block: the bundles are stored under their names in the order of the
  source, and an error of a later section discards the module.
\<close>

definition init :: "inputs \<Rightarrow> error + state" where
  "init inp =
     (let c = store inp;
          ser = install_serializers (bunyan_stdSerializers inp);
          oc1 = obj_set ''loggerOptions'' (loggerOptions c ser) [];
          oc2 = obj_set ''bodyParserOptions'' (bodyParserOptions c) oc1;
          oc3 = obj_set ''throttleOptions'' (throttleOptions c) oc2
      in case serverOptions inp of
           Inl e \<Rightarrow> Inl e
         | Inr (so, ws) \<Rightarrow>
             (case sessionOptions c of
                Inl e \<Rightarrow> Inl e
              | Inr se \<Rightarrow>
                  Inr \<lparr> otherConf = obj_set ''sessionOptions'' se
                                      (obj_set ''serverOptions'' so oc3),
                        convictConf = c,
                        emitter = new_EventEmitter,
                        watchers = ws,
                        stdSerializers = ser \<rparr>))"

text \<open>
  The \<open>fs.watch\<close> callback (lines 311-315), run on a change event with the file
  system as it is then. The target of the assignment,
  \<open>otherConf['serverOptions'].httpsServerOptions\<close>, is evaluated first, then the file
  is read, then the property is written and the event emitted. A failing read throws
  before anything is written.
\<close>

definition crl_watch_callback ::
  "(string \<Rightarrow> byte list option) \<Rightarrow> string \<Rightarrow> state \<Rightarrow> error + state" where
  "crl_watch_callback fs crlPath st =
     (case js_get (js_index (otherConf st) ''serverOptions'') ''httpsServerOptions'' of
        Inl e \<Rightarrow> Inl e
      | Inr hso \<Rightarrow>
          (if hso = JUndefined \<or> hso = JNull then Inl TypeError
           else (case readFileSync fs crlPath of
                   Inl e \<Rightarrow> Inl e
                 | Inr crl \<Rightarrow>
                     Inr (st\<lparr> otherConf :=
                                obj_set ''serverOptions''
                                  (set_prop (js_index (otherConf st) ''serverOptions'')
                                     ''httpsServerOptions'' (set_prop hso ''crl'' crl))
                                  (otherConf st),
                              emitter :=
                                emitter_emit ''change'' [JStr ''https.crl''] (emitter st) \<rparr>))))"

section \<open>The accessor\<close>

text \<open>
  Modelled from the spec: \<open>convictConf.get\<close>, the lookup of the validated store,
  which belongs to the convict library and is not under \<open>src/\<close>. The spec says that
  it supports dotted-path traversal into nested schema entries and that a name it does
  not find is a not-found condition. \<open>conf_tree\<close> is the store as the nested object
  the schema (lines 31-229) describes.
\<close>

definition conf_tree :: "config \<Rightarrow> jsval" where
  "conf_tree c =
     JObj [(''api'',
              JObj [(''host'', JStr (api_host c)),
                    (''port'', JNum (api_port c)),
                    (''authenticationMode'', JStr (api_authenticationMode c)),
                    (''authenticationAppName'', JStr (api_authenticationAppName c))]),
           (''port'', JNum (port c)),
           (''expiration'', JNum (expiration c)),
           (''https'',
              JObj [(''enable'', JBool (https_enable c)),
                    (''ca'', JStr (https_ca c)),
                    (''cert'', JStr (https_cert c)),
                    (''key'', JStr (https_key c)),
                    (''crl'', JStr (https_crl c))]),
           (''logging'',
              JObj [(''stdout'', JBool (logging_stdout c)),
                    (''stdoutLevel'', JStr (logging_stdoutLevel c)),
                    (''logfile'', JStr (logging_logfile c)),
                    (''logfileLevel'', JStr (logging_logfileLevel c)),
                    (''reqBody'', JBool (logging_reqBody c)),
                    (''clientDetail'', JBool (logging_clientDetail c))]),
           (''service'',
              JObj [(''name'', JStr (service_name c)),
                    (''version'', JStr (service_version c))]),
           (''maxBodySize'', JNum (maxBodySize c)),
           (''throttle'',
              JObj [(''burst'', JNum (throttle_burst c)),
                    (''rate'', JNum (throttle_rate c))]),
           (''websocket'',
              JObj [(''socket-io'',
                       JObj [(''enable'', JBool (websocket_socket_io_enable c)),
                             (''port'', JNum (websocket_socket_io_port c))]),
                    (''ws'',
                       JObj [(''enable'', JBool (websocket_ws_enable c)),
                             (''port'', JNum (websocket_ws_port c))])]),
           (''longpoll'',
              JObj [(''maxbuffersize'', JNum (longpoll_maxbuffersize c)),
                    (''pollfrequency'', JNum (longpoll_pollfrequency c)),
                    (''polltimeout'', JNum (longpoll_polltimeout c))])]"

fun split_dots :: "string \<Rightarrow> string list" where
  "split_dots [] = [[]]"
| "split_dots (c # cs) =
     (if c = CHR ''.'' then [] # split_dots cs
      else (case split_dots cs of [] \<Rightarrow> [[c]] | seg # segs \<Rightarrow> (c # seg) # segs))"

fun walk :: "string list \<Rightarrow> jsval \<Rightarrow> jsval option" where
  "walk [] v = Some v"
| "walk (k # ks) (JObj fs) = (case map_of fs k of None \<Rightarrow> None | Some v \<Rightarrow> walk ks v)"
| "walk (k # ks) v = None"

definition convict_get :: "config \<Rightarrow> string \<Rightarrow> error + jsval" where
  "convict_get c name =
     (case walk (split_dots name) (conf_tree c) of
        None \<Rightarrow> Inl (Error (''cannot find configuration param '' @ name))
      | Some v \<Rightarrow> Inr v)"

text \<open>The exported \<open>get\<close> (lines 14-21).\<close>

definition get :: "state \<Rightarrow> string \<Rightarrow> error + jsval" where
  "get st name =
     (if js_in name (otherConf st) then Inr (js_index (otherConf st) name)
      else convict_get (convictConf st) name)"

text \<open>The names under which the initialisation stores a bundle.\<close>

definition bundle_names :: "string list" where
  "bundle_names =
     [''loggerOptions'', ''bodyParserOptions'', ''throttleOptions'', ''serverOptions'',
      ''sessionOptions'']"

section \<open>The life of the module\<close>

text \<open>
  After a completed initialisation the rest of the process subscribes to the emitter,
  and each change event on a watched path runs the callback armed on it, with the
  file system as it is at that time.
\<close>

inductive reachable :: "inputs \<Rightarrow> state \<Rightarrow> bool" where
  loaded: "init inp = Inr st \<Longrightarrow> reachable inp st"
| subscribed: "reachable inp st \<Longrightarrow>
     reachable inp (st\<lparr> emitter := emitter_on ev l (emitter st) \<rparr>)"
| reloaded: "reachable inp st \<Longrightarrow> p \<in> set (watchers st) \<Longrightarrow>
     crl_watch_callback fs p st = Inr st' \<Longrightarrow> reachable inp st'"

section \<open>The schema and the layered sources\<close>

text \<open>
  The schema handed to \<open>convict\<close> (lines 31-229): for each entry its dotted key, its
  format, its default, and the environment variable and the command-line flag it
  declares, if any. The documentation strings are left out.
\<close>

record schema_entry =
  entry_key :: string
  entry_format :: format
  entry_default :: jsval
  entry_env :: "string option"
  entry_arg :: "string option"

definition entry ::
  "string \<Rightarrow> format \<Rightarrow> jsval \<Rightarrow> string option \<Rightarrow> string option \<Rightarrow> schema_entry" where
  "entry k f d e a =
     \<lparr> entry_key = k, entry_format = f, entry_default = d, entry_env = e, entry_arg = a \<rparr>"

definition schema :: "schema_entry list" where
  "schema =
     [entry ''api.host'' F_ipaddress (JStr ''127.0.0.1'')
        (Some ''BLPAPI_HTTP_API_HOST'') (Some ''api-host''),
      entry ''api.port'' F_port (JNum 8194)
        (Some ''BLPAPI_HTTP_API_PORT'') (Some ''api-port''),
      entry ''api.authenticationMode'' F_String (JStr ''APPLICATION_ONLY'')
        (Some ''BLPAPI_HTTP_API_AUTHENTICATION_MODE'') (Some ''api-authenticationMode''),
      entry ''api.authenticationAppName'' F_String (JStr [])
        (Some ''BLPAPI_HTTP_API_AUTHENTICATION_APPNAME'') (Some ''api-authenticationAppName''),
      entry ''port'' F_port (JNum 80) (Some ''BLPAPI_HTTP_PORT'') (Some ''port''),
      entry ''expiration'' F_integer (JNum 5) None (Some ''session-expiration''),
      entry ''https.enable'' F_Boolean (JBool False) None (Some ''https-enable''),
      entry ''https.ca'' F_String (JStr ''../keys/bloomberg-ca-crt.pem'') None
        (Some ''https-ca''),
      entry ''https.cert'' F_String (JStr ''../keys/hackathon-crt.pem'') None
        (Some ''https-cert''),
      entry ''https.key'' F_String (JStr ''../keys/hackathon-key.pem'') None
        (Some ''https-key''),
      entry ''https.crl'' F_String (JStr []) None (Some ''https-crl''),
      entry ''logging.stdout'' F_Boolean (JBool True) None (Some ''logging-stdout''),
      entry ''logging.stdoutLevel'' F_String (JStr ''info'') None
        (Some ''logging-stdoutLevel''),
      entry ''logging.logfile'' F_String (JStr ''blpapi-http.log'') None
        (Some ''logging-logfile''),
      entry ''logging.logfileLevel'' F_String (JStr ''trace'') None
        (Some ''logging-logfileLevel''),
      entry ''logging.reqBody'' F_Boolean (JBool False) None (Some ''logging-reqBody''),
      entry ''logging.clientDetail'' F_Boolean (JBool False) None
        (Some ''logging-clientDetail''),
      entry ''service.name'' F_String (JStr ''BLPAPI-HTTP'') None (Some ''service-name''),
      entry ''service.version'' F_String (JStr ''1.0.0'') None (Some ''service-version''),
      entry ''maxBodySize'' F_integer (JNum 1024) None (Some ''maxBodySize''),
      entry ''throttle.burst'' F_integer (JNum 100) None (Some ''throttle-burst''),
      entry ''throttle.rate'' F_integer (JNum 50) None (Some ''throttle-rate''),
      entry ''websocket.socket-io.enable'' F_Boolean (JBool True) None
        (Some ''websocket-socket-io-enable''),
      entry ''websocket.socket-io.port'' F_port (JNum 3001) None
        (Some ''websocket-socket-io-port''),
      entry ''websocket.ws.enable'' F_Boolean (JBool True) None
        (Some ''websocket-ws-enable''),
      entry ''websocket.ws.port'' F_port (JNum 3002) None (Some ''websocket-ws-port''),
      entry ''longpoll.maxbuffersize'' F_integer (JNum 50) None
        (Some ''longpoll-maxbuffersize''),
      entry ''longpoll.pollfrequency'' F_integer (JNum 100) None
        (Some ''longpoll-pollfrequency''),
      entry ''longpoll.polltimeout'' F_integer (JNum 30000) None
        (Some ''longpoll-polltimeout'')]"

text \<open>
  The raw inputs: the command-line flags supplied, the environment variables set, and
  the settings of the config file named by \<open>--cfg\<close> (lines 231-233), if one was given,
  by dotted key.
\<close>

record sources =
  argv :: "string \<Rightarrow> jsval option"
  environ :: "string \<Rightarrow> jsval option"
  cfg_file :: "(string \<Rightarrow> jsval option) option"

text \<open>
  Modelled from the spec: the resolution of one entry, which the convict library
  performs (\<open>convict(...)\<close> and \<open>loadFile\<close>, not under \<open>src/\<close>). The spec gives the
  precedence, highest first: the command-line argument if the entry declares a flag
  and it was supplied, the environment variable if declared and set, the value of the
  config file if one was supplied and has the key, the entry's default.
\<close>

definition from_arg :: "sources \<Rightarrow> schema_entry \<Rightarrow> jsval option" where
  "from_arg src e = (case entry_arg e of None \<Rightarrow> None | Some a \<Rightarrow> argv src a)"

definition from_env :: "sources \<Rightarrow> schema_entry \<Rightarrow> jsval option" where
  "from_env src e = (case entry_env e of None \<Rightarrow> None | Some n \<Rightarrow> environ src n)"

definition from_file :: "sources \<Rightarrow> schema_entry \<Rightarrow> jsval option" where
  "from_file src e = (case cfg_file src of None \<Rightarrow> None | Some f \<Rightarrow> f (entry_key e))"

definition resolve_entry :: "sources \<Rightarrow> schema_entry \<Rightarrow> jsval" where
  "resolve_entry src e =
     (case from_arg src e of
        Some v \<Rightarrow> v
      | None \<Rightarrow>
          (case from_env src e of
             Some v \<Rightarrow> v
           | None \<Rightarrow>
               (case from_file src e of
                  Some v \<Rightarrow> v
                | None \<Rightarrow> entry_default e)))"

definition resolve :: "sources \<Rightarrow> (schema_entry \<times> jsval) list" where
  "resolve src = map (\<lambda>e. (e, resolve_entry src e)) schema"

text \<open>
  Modelled from the spec: \<open>convictConf.validate()\<close> (line 234), also the convict
  library's. The spec gives the formats: IP-address syntax, integer-in-range port
  (1 to 65535), plain integer, boolean, arbitrary string; validation stops at the first
  failing entry and reports its key and the expected format. The spec does not say
  what IP-address syntax is, so the syntax check is a parameter.
\<close>

fun check_format :: "(string \<Rightarrow> bool) \<Rightarrow> format \<Rightarrow> jsval \<Rightarrow> bool" where
  "check_format ip F_port v = (case v of JNum n \<Rightarrow> 1 \<le> n \<and> n \<le> 65535 | _ \<Rightarrow> False)"
| "check_format ip F_integer v = (case v of JNum n \<Rightarrow> True | _ \<Rightarrow> False)"
| "check_format ip F_Boolean v = (case v of JBool b \<Rightarrow> True | _ \<Rightarrow> False)"
| "check_format ip F_String v = (case v of JStr s \<Rightarrow> True | _ \<Rightarrow> False)"
| "check_format ip F_ipaddress v = (case v of JStr s \<Rightarrow> ip s | _ \<Rightarrow> False)"

fun validate :: "(string \<Rightarrow> bool) \<Rightarrow> (schema_entry \<times> jsval) list \<Rightarrow> error + unit" where
  "validate ip [] = Inr ()"
| "validate ip ((e, v) # rest) =
     (if check_format ip (entry_format e) v then validate ip rest
      else Inl (ValidationError (entry_key e) (entry_format e)))"

section \<open>The whole initialisation block\<close>

text \<open>
  Modelled from the spec: the validated store as the rest of the block reads it. After
  \<open>convictConf.validate()\<close> has passed, each setting is the resolved value of its
  entry, of the shape its format requires, so the other cases of the three readers
  below are never reached.
\<close>

definition value_of :: "(schema_entry \<times> jsval) list \<Rightarrow> string \<Rightarrow> jsval" where
  "value_of resolved k =
     (case find (\<lambda>(e, v). entry_key e = k) resolved of
        None \<Rightarrow> JUndefined
      | Some (e, v) \<Rightarrow> v)"

fun str_of :: "jsval \<Rightarrow> string" where
  "str_of (JStr s) = s"
| "str_of v = []"

fun num_of :: "jsval \<Rightarrow> int" where
  "num_of (JNum n) = n"
| "num_of v = 0"

fun bool_of :: "jsval \<Rightarrow> bool" where
  "bool_of (JBool b) = b"
| "bool_of v = False"

definition store_of :: "(schema_entry \<times> jsval) list \<Rightarrow> config" where
  "store_of r =
     \<lparr> api_host = str_of (value_of r ''api.host''),
       api_port = num_of (value_of r ''api.port''),
       api_authenticationMode = str_of (value_of r ''api.authenticationMode''),
       api_authenticationAppName = str_of (value_of r ''api.authenticationAppName''),
       port = num_of (value_of r ''port''),
       expiration = num_of (value_of r ''expiration''),
       https_enable = bool_of (value_of r ''https.enable''),
       https_ca = str_of (value_of r ''https.ca''),
       https_cert = str_of (value_of r ''https.cert''),
       https_key = str_of (value_of r ''https.key''),
       https_crl = str_of (value_of r ''https.crl''),
       logging_stdout = bool_of (value_of r ''logging.stdout''),
       logging_stdoutLevel = str_of (value_of r ''logging.stdoutLevel''),
       logging_logfile = str_of (value_of r ''logging.logfile''),
       logging_logfileLevel = str_of (value_of r ''logging.logfileLevel''),
       logging_reqBody = bool_of (value_of r ''logging.reqBody''),
       logging_clientDetail = bool_of (value_of r ''logging.clientDetail''),
       service_name = str_of (value_of r ''service.name''),
       service_version = str_of (value_of r ''service.version''),
       maxBodySize = num_of (value_of r ''maxBodySize''),
       throttle_burst = num_of (value_of r ''throttle.burst''),
       throttle_rate = num_of (value_of r ''throttle.rate''),
       websocket_socket_io_enable = bool_of (value_of r ''websocket.socket-io.enable''),
       websocket_socket_io_port = num_of (value_of r ''websocket.socket-io.port''),
       websocket_ws_enable = bool_of (value_of r ''websocket.ws.enable''),
       websocket_ws_port = num_of (value_of r ''websocket.ws.port''),
       longpoll_maxbuffersize = num_of (value_of r ''longpoll.maxbuffersize''),
       longpoll_pollfrequency = num_of (value_of r ''longpoll.pollfrequency''),
       longpoll_polltimeout = num_of (value_of r ''longpoll.polltimeout'') \<rparr>"

text \<open>
  Lines 26-351 in the order of the source: the schema is resolved against the sources
  (lines 31-233), the result is validated (line 234), and only then are the bundles
  built. The error of a failed validation leaves the block as any other: nothing after
  line 234 runs and the module is not loaded. The arguments are the IP-address syntax,
  the sources, the file system, \<open>path.resolve(__dirname, p)\<close> and the serializer
  table of the logging library.
\<close>

definition startup ::
  "(string \<Rightarrow> bool) \<Rightarrow> sources \<Rightarrow> (string \<Rightarrow> byte list option) \<Rightarrow> (string \<Rightarrow> string)
     \<Rightarrow> (string \<times> jsval) list \<Rightarrow> error + state" where
  "startup ip src fs pr ser =
     (let resolved = resolve src
      in (case validate ip resolved of
            Inl e \<Rightarrow> Inl e
          | Inr ok \<Rightarrow>
              init \<lparr> store = store_of resolved, files = fs, path_resolve = pr,
                     bunyan_stdSerializers = ser \<rparr>))"

section \<open>Reading the bundles\<close>

text \<open>A chain of property reads, \<open>v.k1.k2\<close>, and the names of an object's own properties.\<close>

fun js_path :: "jsval \<Rightarrow> string list \<Rightarrow> error + jsval" where
  "js_path v [] = Inr v"
| "js_path v (k # ks) = (case js_get v k of Inl e \<Rightarrow> Inl e | Inr w \<Rightarrow> js_path w ks)"

fun own_keys :: "jsval \<Rightarrow> string list" where
  "own_keys (JObj fs) = map fst fs"
| "own_keys v = []"

section \<open>Sample inputs\<close>

text \<open>
  The logging library's serializer table as it is shipped, a file system with no
  file at all, and the schema's defaults with single settings changed.
\<close>

definition sample_serializers :: "(string \<times> jsval) list" where
  "sample_serializers =
     [(''req'', JRef ''bunyan.req''), (''res'', JRef ''bunyan.res''),
      (''err'', JRef ''bunyan.err'')]"

definition no_files :: "string \<Rightarrow> byte list option" where
  "no_files p = None"

definition in_lib :: "string \<Rightarrow> string" where
  "in_lib p = ''/srv/lib/'' @ p"

definition plain_inputs :: inputs where
  "plain_inputs =
     \<lparr> store = default_config, files = no_files, path_resolve = in_lib,
       bunyan_stdSerializers = sample_serializers \<rparr>"

definition crl_without_tls_inputs :: inputs where
  "crl_without_tls_inputs =
     \<lparr> store = default_config\<lparr> https_crl := ''../keys/revoked.pem'' \<rparr>,
       files = no_files, path_resolve = in_lib,
       bunyan_stdSerializers = sample_serializers \<rparr>"

definition app_config :: config where
  "app_config = default_config\<lparr> api_authenticationAppName := ''blpapi-http'' \<rparr>"

definition user_mode_config :: config where
  "user_mode_config =
     default_config\<lparr> api_authenticationAppName := ''blpapi-http'',
                     api_authenticationMode := ''USER_ONLY'' \<rparr>"

definition user_mode_no_app_config :: config where
  "user_mode_no_app_config = default_config\<lparr> api_authenticationMode := ''USER_ONLY'' \<rparr>"

definition sample_response :: jsval where
  "sample_response =
     JObj [(''statusCode'', JNum 200),
           (''_headers'', JObj [(''content-type'', JStr ''application/json'')]),
           (''_data'', JStr ''{}'')]"

definition sample_pem :: "byte list" where
  "sample_pem = [45, 45, 45, 45, 45, 66, 69, 71, 73, 78]"

definition tls_config :: config where
  "tls_config =
     default_config\<lparr> https_enable := True, https_key := ''key.pem'',
                     https_cert := ''crt.pem'', https_ca := ''ca.pem'',
                     https_crl := ''crl.pem'' \<rparr>"

definition tls_files :: "string \<Rightarrow> byte list option" where
  "tls_files p =
     (if p = ''/srv/lib/key.pem'' then Some sample_pem
      else if p = ''/srv/lib/crt.pem'' then Some sample_pem
      else if p = ''/srv/lib/ca.pem'' then Some sample_pem
      else if p = ''/srv/lib/crl.pem'' then Some [1, 2, 3]
      else None)"

definition tls_inputs :: inputs where
  "tls_inputs =
     \<lparr> store = tls_config, files = tls_files, path_resolve = in_lib,
       bunyan_stdSerializers = sample_serializers \<rparr>"

text \<open>The same with an empty key file, with no certificate file, and with no list.\<close>

definition empty_key_inputs :: inputs where
  "empty_key_inputs = tls_inputs\<lparr> files := tls_files(''/srv/lib/key.pem'' \<mapsto> []) \<rparr>"

definition missing_cert_inputs :: inputs where
  "missing_cert_inputs = tls_inputs\<lparr> files := tls_files(''/srv/lib/crt.pem'' := None) \<rparr>"

definition crl_replaced :: "string \<Rightarrow> byte list option" where
  "crl_replaced = tls_files(''/srv/lib/crl.pem'' \<mapsto> [4, 5, 6, 7])"

definition crl_removed :: "string \<Rightarrow> byte list option" where
  "crl_removed = tls_files(''/srv/lib/crl.pem'' := None)"

text \<open>The state after loading with TLS and a list, and two subscribers added.\<close>

definition tls_state :: state where
  "tls_state =
     (let st = projr (init tls_inputs);
          st1 = st\<lparr> emitter := emitter_on ''change'' 1 (emitter st) \<rparr>
      in st1\<lparr> emitter := emitter_on ''change'' 2 (emitter st1) \<rparr>)"

definition all_sources :: sources where
  "all_sources =
     \<lparr> argv = [''port'' \<mapsto> JNum 8080],
       environ = [''BLPAPI_HTTP_PORT'' \<mapsto> JNum 8081],
       cfg_file = Some [''port'' \<mapsto> JNum 8082] \<rparr>"

definition port_entry :: schema_entry where
  "port_entry = entry ''port'' F_port (JNum 80) (Some ''BLPAPI_HTTP_PORT'') (Some ''port'')"

definition host_entry :: schema_entry where
  "host_entry =
     entry ''api.host'' F_ipaddress (JStr ''127.0.0.1'')
       (Some ''BLPAPI_HTTP_API_HOST'') (Some ''api-host'')"

text \<open>
  No source at all, a port out of range on the command line, a host that is no address
  on the command line, and an IP-address syntax that knows the loopback address only.
\<close>

definition no_sources :: sources where
  "no_sources = \<lparr> argv = Map.empty, environ = Map.empty, cfg_file = None \<rparr>"

definition port_70000_sources :: sources where
  "port_70000_sources = no_sources\<lparr> argv := [''port'' \<mapsto> JNum 70000] \<rparr>"

definition bad_host_sources :: sources where
  "bad_host_sources = no_sources\<lparr> argv := [''api-host'' \<mapsto> JStr ''not-an-address''] \<rparr>"

definition loopback_only :: "string \<Rightarrow> bool" where
  "loopback_only s = (s = ''127.0.0.1'')"

section \<open>Properties\<close>

subsection \<open>Shared facts\<close>

lemma init_success:
  assumes "init inp = Inr st"
  obtains so ws se where
    "serverOptions inp = Inr (so, ws)"
    "sessionOptions (store inp) = Inr se"
    "otherConf st =
       [(''loggerOptions'',
           loggerOptions (store inp) (install_serializers (bunyan_stdSerializers inp))),
        (''bodyParserOptions'', bodyParserOptions (store inp)),
        (''throttleOptions'', throttleOptions (store inp)),
        (''serverOptions'', so),
        (''sessionOptions'', se)]"
    "convictConf st = store inp"
    "watchers st = ws"
    "emitter st = new_EventEmitter"
  using assms
  by (auto simp: init_def Let_def split: sum.splits prod.splits)

lemma util_format_mode:
  "util_format ''Bad value for api.authenticationMode: %s'' [m]
     = ''Bad value for api.authenticationMode: '' @ m"
  by simp

lemma util_format_auth:
  "util_format
     (''AuthenticationMode=%s;'' @ ''ApplicationAuthenticationType=APPNAME_AND_KEY;''
      @ ''ApplicationName=%s'') [m, a]
     = ''AuthenticationMode='' @ m
       @ '';ApplicationAuthenticationType=APPNAME_AND_KEY;ApplicationName='' @ a"
  by simp

lemma sessionOptions_plain: "sessionOptions default_config =
  Inr (JObj [(''blpapiSessionOptions'',
                JObj [(''serverHost'', JStr ''127.0.0.1''), (''serverPort'', JNum 8194)]),
             (''authorizeOnStartup'', JBool False)])"
  by (simp add: sessionOptions_def default_config_def)

lemma init_ok:
  assumes "serverOptions inp = Inr (so, ws)" and "sessionOptions (store inp) = Inr se"
  shows "\<exists>st. init inp = Inr st"
  using assms by (simp add: init_def Let_def)

lemma serverOptions_tls_off:
  assumes "\<not> https_enable (store inp)"
  shows "serverOptions inp =
     Inr (JObj [(''name'', JStr (service_name (store inp))),
                (''version'', JStr (service_version (store inp))),
                (''acceptable'', JArr [JStr ''application/json''])], [])"
  using assms by (simp add: serverOptions_def Let_def)

lemma init_plain_inputs: "\<exists>st. init plain_inputs = Inr st"
proof (rule init_ok)
  show "serverOptions plain_inputs = Inr (JObj [(''name'', JStr (service_name (store plain_inputs))),
                (''version'', JStr (service_version (store plain_inputs))),
                (''acceptable'', JArr [JStr ''application/json''])], [])"
    by (rule serverOptions_tls_off) (simp add: plain_inputs_def default_config_def)
  show "sessionOptions (store plain_inputs) = Inr (JObj [(''blpapiSessionOptions'',
                JObj [(''serverHost'', JStr ''127.0.0.1''), (''serverPort'', JNum 8194)]),
             (''authorizeOnStartup'', JBool False)])"
    by (simp add: plain_inputs_def sessionOptions_plain)
qed

lemma map_of_obj_set:
  "map_of (obj_set k v fs) k' = (if k' = k then Some v else map_of fs k')"
  by (induction fs) auto

lemma js_index_obj_set:
  "js_index (obj_set k v fs) k' = (if k' = k then v else js_index fs k')"
  by (simp add: js_index_def map_of_obj_set)

lemma init_failure:
  assumes "serverOptions inp = Inl e"
  shows "init inp = Inl e"
  using assms by (simp add: init_def Let_def)

lemma res_serializer_total: "res_serializer res \<noteq> Inl e"
  by (cases res) (simp_all add: res_serializer_def)

lemma init_crl_without_tls: "\<exists>st. init crl_without_tls_inputs = Inr st"
proof (rule init_ok)
  show "serverOptions crl_without_tls_inputs =
     Inr (JObj [(''name'', JStr (service_name (store crl_without_tls_inputs))),
                (''version'', JStr (service_version (store crl_without_tls_inputs))),
                (''acceptable'', JArr [JStr ''application/json''])], [])"
    by (rule serverOptions_tls_off) (simp add: crl_without_tls_inputs_def default_config_def)
  show "sessionOptions (store crl_without_tls_inputs) = Inr (JObj [(''blpapiSessionOptions'',
                JObj [(''serverHost'', JStr ''127.0.0.1''), (''serverPort'', JNum 8194)]),
             (''authorizeOnStartup'', JBool False)])"
    by (simp add: crl_without_tls_inputs_def sessionOptions_def default_config_def)
qed

lemma keys_obj_set:
  "map_of fs k = Some w \<Longrightarrow> map fst (obj_set k v fs) = map fst fs"
  by (induction fs) (auto split: if_splits)

lemma js_get_set_prop_other:
  "k \<noteq> k' \<Longrightarrow> js_get (set_prop w k' v) k = js_get w k"
  by (cases w) (simp_all add: js_index_obj_set)

lemma js_index_own:
  assumes "js_index fs k = v" and "map_of object_prototype k = None" and "v \<noteq> JUndefined"
  shows "map_of fs k = Some v"
  using assms by (auto simp: js_index_def split: option.splits)

lemma proto_serverOptions: "map_of object_prototype ''serverOptions'' = None"
  by (simp add: object_prototype_def)

lemma serverOptions_tls_on:
  assumes "https_enable (store inp)" and "serverOptions inp = Inr (so, ws)"
  obtains k ce ca extra where
    "files inp (path_resolve inp (https_key (store inp))) = Some k"
    "files inp (path_resolve inp (https_cert (store inp))) = Some ce"
    "files inp (path_resolve inp (https_ca (store inp))) = Some ca"
    "so = JObj [(''name'', JStr (service_name (store inp))),
                (''version'', JStr (service_version (store inp))),
                (''acceptable'', JArr [JStr ''application/json'']),
                (''httpsServerOptions'',
                   JObj ([(''key'', JBuf k), (''cert'', JBuf ce), (''ca'', JBuf ca),
                          (''requestCert'', JBool True),
                          (''rejectUnauthorized'', JBool True)] @ extra))]"
    "ws = (if https_crl (store inp) \<noteq> [] then [path_resolve inp (https_crl (store inp))] else [])"
  using assms
  by (auto simp: serverOptions_def Let_def readFileSync_def split: option.splits if_splits)

lemma serverOptions_read_failure:
  assumes "https_enable (store inp)"
    and "files inp (path_resolve inp (https_key (store inp))) = None
         \<or> files inp (path_resolve inp (https_cert (store inp))) = None
         \<or> files inp (path_resolve inp (https_ca (store inp))) = None"
  shows "\<exists>p. serverOptions inp = Inl (ReadError p) \<and> files inp p = None"
  using assms
  by (auto simp: serverOptions_def Let_def readFileSync_def split: option.splits)

lemma callback_success:
  assumes "map_of (otherConf st) ''serverOptions'' = Some (JObj so)"
    and "map_of so ''httpsServerOptions'' = Some (JObj hso)"
    and "fs p = Some buf"
  shows "crl_watch_callback fs p st =
     Inr (st\<lparr> otherConf :=
                obj_set ''serverOptions''
                  (JObj (obj_set ''httpsServerOptions'' (JObj (obj_set ''crl'' (JBuf buf) hso)) so))
                  (otherConf st),
              emitter := emitter_emit ''change'' [JStr ''https.crl''] (emitter st) \<rparr>)"
  using assms by (simp add: crl_watch_callback_def js_index_def readFileSync_def)

lemma callback_result:
  assumes "crl_watch_callback fs p st = Inr st'"
  obtains so hso buf where
    "js_index (otherConf st) ''serverOptions'' = JObj so"
    "js_index so ''httpsServerOptions'' = hso"
    "hso \<noteq> JUndefined" "hso \<noteq> JNull"
    "fs p = Some buf"
    "st' = st\<lparr> otherConf :=
                obj_set ''serverOptions''
                  (JObj (obj_set ''httpsServerOptions'' (set_prop hso ''crl'' (JBuf buf)) so))
                  (otherConf st),
              emitter := emitter_emit ''change'' [JStr ''https.crl''] (emitter st) \<rparr>"
proof -
  from assms obtain hso where
    h: "js_get (js_index (otherConf st) ''serverOptions'') ''httpsServerOptions'' = Inr hso"
      "hso \<noteq> JUndefined" "hso \<noteq> JNull"
    by (auto simp: crl_watch_callback_def split: sum.splits if_splits)
  from h obtain so where so: "js_index (otherConf st) ''serverOptions'' = JObj so"
    by (cases "js_index (otherConf st) ''serverOptions''") auto
  with h have hso: "js_index so ''httpsServerOptions'' = hso" by simp
  from assms h so obtain buf where buf: "fs p = Some buf"
    by (auto simp: crl_watch_callback_def readFileSync_def split: option.splits)
  from assms h so hso buf have "st' = st\<lparr> otherConf :=
                obj_set ''serverOptions''
                  (JObj (obj_set ''httpsServerOptions'' (set_prop hso ''crl'' (JBuf buf)) so))
                  (otherConf st),
              emitter := emitter_emit ''change'' [JStr ''https.crl''] (emitter st) \<rparr>"
    by (auto simp: crl_watch_callback_def readFileSync_def)
  with so hso h buf that show thesis by blast
qed

lemma reachable_tls:
  assumes "reachable inp st"
  shows "watchers st = (if https_enable (store inp) \<and> https_crl (store inp) \<noteq> []
                        then [path_resolve inp (https_crl (store inp))] else [])
         \<and> (https_enable (store inp) \<longrightarrow>
              (\<exists>so hso. map_of (otherConf st) ''serverOptions'' = Some (JObj so)
                 \<and> map_of so ''httpsServerOptions'' = Some (JObj hso)))"
  using assms
proof (induction rule: reachable.induct)
  case (loaded inp st)
  show ?case
  proof (cases "https_enable (store inp)")
    case True
    from loaded obtain so ws se where s: "serverOptions inp = Inr (so, ws)"
      "otherConf st =
       [(''loggerOptions'',
           loggerOptions (store inp) (install_serializers (bunyan_stdSerializers inp))),
        (''bodyParserOptions'', bodyParserOptions (store inp)),
        (''throttleOptions'', throttleOptions (store inp)),
        (''serverOptions'', so),
        (''sessionOptions'', se)]" "watchers st = ws"
      by (rule init_success)
    from True s(1) show ?thesis
      by (rule serverOptions_tls_on) (use True s in simp)
  next
    case False
    from loaded obtain so ws where s: "serverOptions inp = Inr (so, ws)" "watchers st = ws"
      by (rule init_success)
    with False serverOptions_tls_off [of inp] show ?thesis by simp
  qed
next
  case (subscribed inp st ev l)
  then show ?case by simp
next
  case (reloaded inp st p fs st')
  from reloaded(3) obtain so hso buf where r:
    "js_index (otherConf st) ''serverOptions'' = JObj so"
    "st' = st\<lparr> otherConf :=
                obj_set ''serverOptions''
                  (JObj (obj_set ''httpsServerOptions'' (set_prop hso ''crl'' (JBuf buf)) so))
                  (otherConf st),
              emitter := emitter_emit ''change'' [JStr ''https.crl''] (emitter st) \<rparr>"
    "js_index so ''httpsServerOptions'' = hso"
    by (rule callback_result)
  have w: "watchers st' = watchers st" using r(2) by simp
  have tls: "\<exists>so' hso'. map_of (otherConf st') ''serverOptions'' = Some (JObj so')
                 \<and> map_of so' ''httpsServerOptions'' = Some (JObj hso')"
    if "https_enable (store inp)"
  proof -
    from that reloaded.IH obtain so0 hso0 where
      m: "map_of (otherConf st) ''serverOptions'' = Some (JObj so0)"
         "map_of so0 ''httpsServerOptions'' = Some (JObj hso0)" by blast
    from m r(1) have "so0 = so" by (simp add: js_index_def)
    with m r(3) have "hso = JObj hso0" by (simp add: js_index_def)
    with r(2) show ?thesis by (simp add: map_of_obj_set)
  qed
  from w tls reloaded.IH show ?case by simp
qed

lemma serverOptions_tls_inputs:
  "serverOptions tls_inputs =
     Inr (JObj [(''name'', JStr ''BLPAPI-HTTP''), (''version'', JStr ''1.0.0''),
                (''acceptable'', JArr [JStr ''application/json'']),
                (''httpsServerOptions'',
                   JObj [(''key'', JBuf sample_pem), (''cert'', JBuf sample_pem),
                         (''ca'', JBuf sample_pem), (''requestCert'', JBool True),
                         (''rejectUnauthorized'', JBool True), (''crl'', JBuf [1, 2, 3])])],
          [''/srv/lib/crl.pem''])"
  by (simp add: serverOptions_def tls_inputs_def tls_config_def tls_files_def in_lib_def
      readFileSync_def default_config_def)

lemma sessionOptions_tls_config: "\<exists>se. sessionOptions tls_config = Inr se"
  by (simp add: sessionOptions_def tls_config_def default_config_def)

lemma init_tls_inputs: "\<exists>st. init tls_inputs = Inr st"
proof -
  from sessionOptions_tls_config obtain se where "sessionOptions (store tls_inputs) = Inr se"
    by (auto simp: tls_inputs_def)
  with serverOptions_tls_inputs show ?thesis by (rule init_ok)
qed

lemma init_empty_key_inputs: "\<exists>st. init empty_key_inputs = Inr st"
proof -
  from sessionOptions_tls_config obtain se where "sessionOptions (store empty_key_inputs) = Inr se"
    by (auto simp: tls_inputs_def empty_key_inputs_def)
  moreover have "\<exists>so ws. serverOptions empty_key_inputs = Inr (so, ws)"
    by (simp add: serverOptions_def empty_key_inputs_def tls_inputs_def tls_config_def
        tls_files_def in_lib_def readFileSync_def default_config_def)
  ultimately show ?thesis using init_ok by blast
qed

lemma callback_read_failure:
  assumes "map_of (otherConf st) ''serverOptions'' = Some (JObj so)"
    and "map_of so ''httpsServerOptions'' = Some (JObj hso)"
    and "fs p = None"
  shows "crl_watch_callback fs p st = Inl (ReadError p)"
  using assms by (simp add: crl_watch_callback_def js_index_def readFileSync_def)

lemma reachable_tls_state: "reachable tls_inputs tls_state"
proof -
  from init_tls_inputs obtain st where st: "init tls_inputs = Inr st" ..
  then have "reachable tls_inputs st" by (rule reachable.loaded)
  then have "reachable tls_inputs (st\<lparr> emitter := emitter_on ''change'' 1 (emitter st) \<rparr>)"
    by (rule reachable.subscribed)
  then have "reachable tls_inputs
      ((st\<lparr> emitter := emitter_on ''change'' 1 (emitter st) \<rparr>)
         \<lparr> emitter := emitter_on ''change'' 2
              (emitter (st\<lparr> emitter := emitter_on ''change'' 1 (emitter st) \<rparr>)) \<rparr>)"
    by (rule reachable.subscribed)
  with st show ?thesis by (simp add: tls_state_def Let_def)
qed

lemma watchers_tls_state: "watchers tls_state = [''/srv/lib/crl.pem'']"
  using reachable_tls [OF reachable_tls_state]
  by (simp add: tls_inputs_def tls_config_def in_lib_def)

lemma emitter_tls_state:
  "listeners (emitter tls_state) = [(''change'', 1), (''change'', 2)]"
  "delivered (emitter tls_state) = []"
proof -
  from init_tls_inputs obtain st where st: "init tls_inputs = Inr st" ..
  then have e: "emitter st = new_EventEmitter" by (rule init_success)
  from st e show "listeners (emitter tls_state) = [(''change'', 1), (''change'', 2)]"
    by (simp add: tls_state_def Let_def emitter_on_def new_EventEmitter_def)
  from st e show "delivered (emitter tls_state) = []"
    by (simp add: tls_state_def Let_def emitter_on_def new_EventEmitter_def)
qed

lemma tls_state_bundle:
  "\<exists>so hso. map_of (otherConf tls_state) ''serverOptions'' = Some (JObj so)
             \<and> map_of so ''httpsServerOptions'' = Some (JObj hso)"
  using reachable_tls [OF reachable_tls_state]
  by (simp add: tls_inputs_def tls_config_def)

lemma reload_tls_state:
  "\<exists>st'. crl_watch_callback crl_replaced ''/srv/lib/crl.pem'' tls_state = Inr st'"
proof -
  from tls_state_bundle obtain so hso where
    m: "map_of (otherConf tls_state) ''serverOptions'' = Some (JObj so)"
       "map_of so ''httpsServerOptions'' = Some (JObj hso)" by blast
  have "crl_replaced ''/srv/lib/crl.pem'' = Some [4, 5, 6, 7]" by (simp add: crl_replaced_def)
  with m show ?thesis using callback_success by blast
qed

lemma get_bundle:
  assumes "init inp = Inr st" and "name \<in> set bundle_names"
  shows "\<exists>b. map_of (otherConf st) name = Some b \<and> get st name = Inr b"
  using assms
  by (elim init_success) (auto simp: bundle_names_def get_def js_in_def js_index_def)

lemma get_delegates:
  assumes "init inp = Inr st" and "name \<notin> set bundle_names"
    and "map_of object_prototype name = None"
  shows "get st name = convict_get (store inp) name"
  using assms
  by (elim init_success) (auto simp: bundle_names_def get_def js_in_def)

lemma convict_get_https_enable: "convict_get c ''https.enable'' = Inr (JBool (https_enable c))"
  by (simp add: convict_get_def conf_tree_def)

lemma convict_get_bundle_path:
  "convict_get c ''serverOptions.name'' = Inl (Error ''cannot find configuration param serverOptions.name'')"
  by (simp add: convict_get_def conf_tree_def)

lemma schema_keys: "map entry_key schema =
  [''api.host'', ''api.port'', ''api.authenticationMode'', ''api.authenticationAppName'',
   ''port'', ''expiration'', ''https.enable'', ''https.ca'', ''https.cert'', ''https.key'',
   ''https.crl'', ''logging.stdout'', ''logging.stdoutLevel'', ''logging.logfile'',
   ''logging.logfileLevel'', ''logging.reqBody'', ''logging.clientDetail'', ''service.name'',
   ''service.version'', ''maxBodySize'', ''throttle.burst'', ''throttle.rate'',
   ''websocket.socket-io.enable'', ''websocket.socket-io.port'', ''websocket.ws.enable'',
   ''websocket.ws.port'', ''longpoll.maxbuffersize'', ''longpoll.pollfrequency'',
   ''longpoll.polltimeout'']"
  by (simp add: schema_def entry_def)

lemma schema_keys_distinct: "distinct (map entry_key schema)"
  unfolding schema_keys by code_simp

lemma port_entry_in_schema: "port_entry \<in> set schema"
  by (simp add: schema_def port_entry_def)

lemma host_entry_in_schema: "host_entry \<in> set schema"
  by (simp add: schema_def host_entry_def)

lemma validate_rejects:
  assumes "(e, v) \<in> set resolved" and "\<not> check_format ip (entry_format e) v"
  shows "\<exists>e' v'. (e', v') \<in> set resolved \<and> \<not> check_format ip (entry_format e') v'
           \<and> validate ip resolved = Inl (ValidationError (entry_key e') (entry_format e'))"
  using assms
proof (induction resolved)
  case Nil
  then show ?case by simp
next
  case (Cons x resolved)
  obtain e0 v0 where x: "x = (e0, v0)" by (cases x)
  show ?case
  proof (cases "check_format ip (entry_format e0) v0")
    case True
    with Cons x have "(e, v) \<in> set resolved" by auto
    with Cons obtain e' v' where "(e', v') \<in> set resolved"
      "\<not> check_format ip (entry_format e') v'"
      "validate ip resolved = Inl (ValidationError (entry_key e') (entry_format e'))" by blast
    with True x show ?thesis by auto
  next
    case False
    with x show ?thesis by auto
  qed
qed

lemma validate_accepts:
  "validate ip resolved = Inr () \<longleftrightarrow> (\<forall>(e, v) \<in> set resolved. check_format ip (entry_format e) v)"
  by (induction resolved) (auto split: if_splits)

lemma check_port: "check_format ip F_port v \<longleftrightarrow> (\<exists>n. v = JNum n \<and> 1 \<le> n \<and> n \<le> 65535)"
  by (cases v) auto

lemma validate_first_failure:
  assumes "\<forall>(e', v') \<in> set pre. check_format ip (entry_format e') v'"
    and "\<not> check_format ip (entry_format e) v"
  shows "validate ip (pre @ (e, v) # post)
           = Inl (ValidationError (entry_key e) (entry_format e))"
  using assms by (induction pre) auto

lemma resolve_split:
  assumes "schema = pre @ e # post"
  shows "resolve src = map (\<lambda>e'. (e', resolve_entry src e')) pre
                       @ (e, resolve_entry src e)
                       # map (\<lambda>e'. (e', resolve_entry src e')) post"
  unfolding resolve_def assms by simp

lemma startup_validation_failure:
  assumes "schema = pre @ e # post"
    and "\<forall>e' \<in> set pre. check_format ip (entry_format e') (resolve_entry src e')"
    and "\<not> check_format ip (entry_format e) (resolve_entry src e)"
  shows "startup ip src fs pr ser = Inl (ValidationError (entry_key e) (entry_format e))"
proof -
  have "validate ip (resolve src) = Inl (ValidationError (entry_key e) (entry_format e))"
    unfolding resolve_split [OF assms(1)]
    by (rule validate_first_failure) (use assms(2,3) in auto)
  then show ?thesis by (simp add: startup_def Let_def)
qed

lemma startup_validated:
  assumes "validate ip (resolve src) = Inr ()"
  shows "startup ip src fs pr ser
           = init \<lparr> store = store_of (resolve src), files = fs, path_resolve = pr,
                    bunyan_stdSerializers = ser \<rparr>"
  using assms by (simp add: startup_def Let_def)

lemma startup_never_skips_validation:
  assumes "startup ip src fs pr ser = Inr st"
  shows "validate ip (resolve src) = Inr ()"
  using assms by (auto simp: startup_def Let_def split: sum.splits)

lemma schema_before_port:
  "schema = [entry ''api.host'' F_ipaddress (JStr ''127.0.0.1'')
        (Some ''BLPAPI_HTTP_API_HOST'') (Some ''api-host''),
      entry ''api.port'' F_port (JNum 8194)
        (Some ''BLPAPI_HTTP_API_PORT'') (Some ''api-port''),
      entry ''api.authenticationMode'' F_String (JStr ''APPLICATION_ONLY'')
        (Some ''BLPAPI_HTTP_API_AUTHENTICATION_MODE'') (Some ''api-authenticationMode''),
      entry ''api.authenticationAppName'' F_String (JStr [])
        (Some ''BLPAPI_HTTP_API_AUTHENTICATION_APPNAME'') (Some ''api-authenticationAppName'')]
     @ port_entry # drop 5 schema"
  by (simp add: schema_def port_entry_def)

lemma schema_before_host: "schema = [] @ host_entry # drop 1 schema"
  by (simp add: schema_def host_entry_def)


lemma resolve_no_sources: "resolve no_sources = map (\<lambda>e. (e, entry_default e)) schema"
  by (simp add: resolve_def resolve_entry_def from_arg_def from_env_def from_file_def
      no_sources_def split: option.splits)

lemma validate_defaults: "validate loopback_only (resolve no_sources) = Inr ()"
  unfolding resolve_no_sources by (simp add: schema_def entry_def loopback_only_def)

lemma store_of_defaults: "store_of (resolve no_sources) = default_config"
  unfolding resolve_no_sources
  by (simp add: schema_def entry_def store_of_def value_of_def default_config_def)

lemma startup_defaults:
  "startup loopback_only no_sources no_files in_lib sample_serializers = init plain_inputs"
  using startup_validated [OF validate_defaults]
  by (simp add: store_of_defaults plain_inputs_def)

subsection \<open>The throttle bundle\<close>

text \<open>
  C8. Whatever the configured burst and rate are, the override table of the throttle
  bundle has an entry for \<open>127.0.0.1\<close> with rate 0 and burst 0, and that bundle is
  what a completed initialisation stores under \<open>throttleOptions\<close>.
\<close>

theorem throttle_loopback_exemption:
  "js_path (throttleOptions c) [''overrides'', ''127.0.0.1'']
     = Inr (JObj [(''rate'', JNum 0), (''burst'', JNum 0)])
   \<and> (\<forall>inp st. init inp = Inr st \<and> store inp = c \<longrightarrow>
         js_path (JObj (otherConf st)) [''throttleOptions'', ''overrides'', ''127.0.0.1'']
           = Inr (JObj [(''rate'', JNum 0), (''burst'', JNum 0)]))"
proof -
  have direct: "js_path (throttleOptions d) [''overrides'', ''127.0.0.1'']
      = Inr (JObj [(''rate'', JNum 0), (''burst'', JNum 0)])" for d
    by (simp add: throttleOptions_def js_index_def)
  have stored: "js_path (JObj (otherConf st)) [''throttleOptions'', ''overrides'', ''127.0.0.1'']
      = Inr (JObj [(''rate'', JNum 0), (''burst'', JNum 0)])"
    if "init inp = Inr st" for inp st
  proof -
    from that have "js_index (otherConf st) ''throttleOptions'' = throttleOptions (store inp)"
      by (elim init_success) (simp add: js_index_def)
    with direct [of "store inp"] show ?thesis by simp
  qed
  from direct stored show ?thesis by blast
qed

theorem throttle_loopback_exemption_witness:
  "init plain_inputs = Inr (projr (init plain_inputs))
   \<and> js_path (JObj (otherConf (projr (init plain_inputs))))
        [''throttleOptions'', ''overrides'', ''127.0.0.1'']
       = Inr (JObj [(''rate'', JNum 0), (''burst'', JNum 0)])"
proof -
  from init_plain_inputs obtain st where st: "init plain_inputs = Inr st" ..
  have c: "store plain_inputs = default_config" by (simp add: plain_inputs_def)
  from throttle_loopback_exemption [of default_config] st c
  have "js_path (JObj (otherConf st)) [''throttleOptions'', ''overrides'', ''127.0.0.1'']
       = Inr (JObj [(''rate'', JNum 0), (''burst'', JNum 0)])" by blast
  with st show ?thesis by simp
qed

subsection \<open>The session bundle\<close>

text \<open>
  C1. The construction of the session bundle splits three ways. With a non-empty
  application name and the mode \<open>APPLICATION_ONLY\<close> the bundle's
  \<open>authenticationOptions\<close> is the string
  \<open>AuthenticationMode=<mode>;ApplicationAuthenticationType=APPNAME_AND_KEY;ApplicationName=<appName>\<close>
  and \<open>authorizeOnStartup\<close> is true. With a non-empty application name and any other
  mode the construction fails with an error whose message names the mode. With the
  empty application name, whatever the mode, the session options have no
  \<open>authenticationOptions\<close> property and \<open>authorizeOnStartup\<close> is false.
\<close>

theorem session_bundle_three_way:
  "(api_authenticationAppName c \<noteq> [] \<and> api_authenticationMode c = ''APPLICATION_ONLY'' \<longrightarrow>
      (\<exists>b. sessionOptions c = Inr b
         \<and> js_path b [''blpapiSessionOptions'', ''authenticationOptions'']
             = Inr (JStr (''AuthenticationMode='' @ api_authenticationMode c
                          @ '';ApplicationAuthenticationType=APPNAME_AND_KEY;ApplicationName=''
                          @ api_authenticationAppName c))
         \<and> js_path b [''authorizeOnStartup''] = Inr (JBool True)))
   \<and> (api_authenticationAppName c \<noteq> [] \<and> api_authenticationMode c \<noteq> ''APPLICATION_ONLY'' \<longrightarrow>
        sessionOptions c
          = Inl (Error (''Bad value for api.authenticationMode: '' @ api_authenticationMode c)))
   \<and> (api_authenticationAppName c = [] \<longrightarrow>
        (\<exists>b bso. sessionOptions c = Inr b
           \<and> js_path b [''blpapiSessionOptions''] = Inr bso
           \<and> own_keys bso = [''serverHost'', ''serverPort'']
           \<and> js_path bso [''authenticationOptions''] = Inr JUndefined
           \<and> js_path b [''authorizeOnStartup''] = Inr (JBool False)))"
proof (intro conjI impI)
  assume a: "api_authenticationAppName c \<noteq> [] \<and> api_authenticationMode c = ''APPLICATION_ONLY''"
  then have "sessionOptions c =
      Inr (JObj [(''blpapiSessionOptions'',
                    JObj [(''serverHost'', JStr (api_host c)),
                          (''serverPort'', JNum (api_port c)),
                          (''authenticationOptions'',
                             JStr (''AuthenticationMode='' @ api_authenticationMode c
                          @ '';ApplicationAuthenticationType=APPNAME_AND_KEY;ApplicationName=''
                          @ api_authenticationAppName c))]),
                 (''authorizeOnStartup'', JBool True)])"
    unfolding sessionOptions_def Let_def util_format_auth by auto
  then show "\<exists>b. sessionOptions c = Inr b
         \<and> js_path b [''blpapiSessionOptions'', ''authenticationOptions'']
             = Inr (JStr (''AuthenticationMode='' @ api_authenticationMode c
                          @ '';ApplicationAuthenticationType=APPNAME_AND_KEY;ApplicationName=''
                          @ api_authenticationAppName c))
         \<and> js_path b [''authorizeOnStartup''] = Inr (JBool True)"
    by (simp add: js_index_def object_prototype_def)
next
  assume "api_authenticationAppName c \<noteq> [] \<and> api_authenticationMode c \<noteq> ''APPLICATION_ONLY''"
  then show "sessionOptions c
          = Inl (Error (''Bad value for api.authenticationMode: '' @ api_authenticationMode c))"
    unfolding sessionOptions_def Let_def util_format_mode by auto
next
  assume "api_authenticationAppName c = []"
  then have "sessionOptions c =
      Inr (JObj [(''blpapiSessionOptions'',
                    JObj [(''serverHost'', JStr (api_host c)),
                          (''serverPort'', JNum (api_port c))]),
                 (''authorizeOnStartup'', JBool False)])"
    by (simp add: sessionOptions_def)
  then show "\<exists>b bso. sessionOptions c = Inr b
           \<and> js_path b [''blpapiSessionOptions''] = Inr bso
           \<and> own_keys bso = [''serverHost'', ''serverPort'']
           \<and> js_path bso [''authenticationOptions''] = Inr JUndefined
           \<and> js_path b [''authorizeOnStartup''] = Inr (JBool False)"
    by (simp add: js_index_def object_prototype_def)
qed

theorem session_bundle_three_way_witness:
  "js_path (projr (sessionOptions app_config)) [''blpapiSessionOptions'', ''authenticationOptions'']
     = Inr (JStr ''AuthenticationMode=APPLICATION_ONLY;ApplicationAuthenticationType=APPNAME_AND_KEY;ApplicationName=blpapi-http'')
   \<and> js_path (projr (sessionOptions app_config)) [''authorizeOnStartup''] = Inr (JBool True)
   \<and> sessionOptions user_mode_config = Inl (Error ''Bad value for api.authenticationMode: USER_ONLY'')
   \<and> js_path (projr (sessionOptions user_mode_no_app_config)) [''blpapiSessionOptions'', ''authenticationOptions''] = Inr JUndefined
   \<and> js_path (projr (sessionOptions user_mode_no_app_config)) [''authorizeOnStartup''] = Inr (JBool False)"
proof -
  have h1: "api_authenticationAppName app_config \<noteq> [] \<and> api_authenticationMode app_config = ''APPLICATION_ONLY''"
    by (simp add: app_config_def default_config_def)
  have h2: "api_authenticationAppName user_mode_config \<noteq> [] \<and> api_authenticationMode user_mode_config \<noteq> ''APPLICATION_ONLY''"
    by (simp add: user_mode_config_def default_config_def)
  have h3: "api_authenticationAppName user_mode_no_app_config = []"
    by (simp add: user_mode_no_app_config_def default_config_def)
  from session_bundle_three_way [of app_config] h1
  obtain b where b: "sessionOptions app_config = Inr b"
    "js_path b [''blpapiSessionOptions'', ''authenticationOptions'']
             = Inr (JStr (''AuthenticationMode='' @ api_authenticationMode app_config
                          @ '';ApplicationAuthenticationType=APPNAME_AND_KEY;ApplicationName=''
                          @ api_authenticationAppName app_config))"
    "js_path b [''authorizeOnStartup''] = Inr (JBool True)" by blast
  from session_bundle_three_way [of user_mode_config] h2
  have e: "sessionOptions user_mode_config
          = Inl (Error (''Bad value for api.authenticationMode: '' @ api_authenticationMode user_mode_config))"
    by blast
  from session_bundle_three_way [of user_mode_no_app_config] h3
  obtain b' bso where b': "sessionOptions user_mode_no_app_config = Inr b'"
     "js_path b' [''blpapiSessionOptions''] = Inr bso"
     "js_path bso [''authenticationOptions''] = Inr JUndefined"
     "js_path b' [''authorizeOnStartup''] = Inr (JBool False)" by blast
  from b'(2,3) have p: "js_path b' [''blpapiSessionOptions'', ''authenticationOptions''] = Inr JUndefined"
    by (auto split: sum.splits)
  from b e b'(1,4) p show ?thesis
    by (simp add: app_config_def user_mode_config_def default_config_def)
qed


subsection \<open>The response serializer\<close>

text \<open>
  C7. The serializer installed for responses returns its input unchanged when the
  input is absent (any falsy value) or has no status code (the property is missing or
  falsy); given an object with a status code it returns an object of exactly the two
  properties \<open>statusCode\<close> and \<open>header\<close>, the latter holding the input's
  \<open>_headers\<close>; and it throws on no input at all.
\<close>

theorem res_serializer_redaction:
  "(\<not> truthy res \<longrightarrow> res_serializer res = Inr res)
   \<and> (\<forall>sc. js_get res ''statusCode'' = Inr sc \<and> \<not> truthy sc \<longrightarrow> res_serializer res = Inr res)
   \<and> (\<forall>fs sc. res = JObj fs \<and> map_of fs ''statusCode'' = Some sc \<and> truthy sc \<longrightarrow>
         res_serializer res
           = Inr (JObj [(''statusCode'', sc), (''header'', js_index fs ''_headers'')]))
   \<and> (\<forall>e. res_serializer res \<noteq> Inl e)"
proof (intro conjI allI impI)
  assume "\<not> truthy res"
  then show "res_serializer res = Inr res" by (simp add: res_serializer_def)
next
  fix sc assume "js_get res ''statusCode'' = Inr sc \<and> \<not> truthy sc"
  then show "res_serializer res = Inr res" by (simp add: res_serializer_def)
next
  fix fs sc assume "res = JObj fs \<and> map_of fs ''statusCode'' = Some sc \<and> truthy sc"
  then show "res_serializer res
           = Inr (JObj [(''statusCode'', sc), (''header'', js_index fs ''_headers'')])"
    by (simp add: res_serializer_def js_index_def)
next
  fix e show "res_serializer res \<noteq> Inl e" by (rule res_serializer_total)
qed

theorem res_serializer_redaction_witness:
  "res_serializer JUndefined = Inr JUndefined
   \<and> res_serializer (JObj [(''body'', JStr ''x'')]) = Inr (JObj [(''body'', JStr ''x'')])
   \<and> res_serializer sample_response
       = Inr (JObj [(''statusCode'', JNum 200),
                    (''header'', JObj [(''content-type'', JStr ''application/json'')])])"
proof -
  have a: "\<not> truthy JUndefined" by simp
  have b: "js_get (JObj [(''body'', JStr ''x'')]) ''statusCode'' = Inr JUndefined \<and> \<not> truthy JUndefined"
    by (simp add: js_index_def object_prototype_def)
  have c: "sample_response = JObj [(''statusCode'', JNum 200),
           (''_headers'', JObj [(''content-type'', JStr ''application/json'')]),
           (''_data'', JStr ''{}'')]
      \<and> map_of [(''statusCode'', JNum 200),
           (''_headers'', JObj [(''content-type'', JStr ''application/json'')]),
           (''_data'', JStr ''{}'')] ''statusCode'' = Some (JNum 200) \<and> truthy (JNum 200)"
    by (simp add: sample_response_def)
  from res_serializer_redaction [of JUndefined] a
  have 1: "res_serializer JUndefined = Inr JUndefined" by blast
  from res_serializer_redaction [of "JObj [(''body'', JStr ''x'')]"] b
  have 2: "res_serializer (JObj [(''body'', JStr ''x'')]) = Inr (JObj [(''body'', JStr ''x'')])" by blast
  from res_serializer_redaction [of sample_response] c
  have 3: "res_serializer sample_response
           = Inr (JObj [(''statusCode'', JNum 200), (''header'', js_index [(''statusCode'', JNum 200),
           (''_headers'', JObj [(''content-type'', JStr ''application/json'')]),
           (''_data'', JStr ''{}'')] ''_headers'')])" by blast
  from 1 2 3 show ?thesis by (simp add: js_index_def)
qed

subsection \<open>The revocation list without TLS\<close>

text \<open>
  C9. When \<open>https.enable\<close> is false the revocation-list path is not looked at, empty
  or not: the server bundle has the three properties \<open>name\<close>, \<open>version\<close> and
  \<open>acceptable\<close> and no \<open>httpsServerOptions\<close>, hence neither TLS material nor a
  revocation list; it is the same whatever the file system holds, so no file is read;
  and no watch is armed.
\<close>

theorem crl_ignored_without_tls:
  assumes "\<not> https_enable (store inp)"
  shows "\<exists>so. serverOptions inp = Inr (so, [])
           \<and> own_keys so = [''name'', ''version'', ''acceptable'']
           \<and> js_path so [''httpsServerOptions''] = Inr JUndefined
           \<and> (\<forall>fs. serverOptions (inp\<lparr> files := fs \<rparr>) = Inr (so, []))
           \<and> (\<forall>st. init inp = Inr st \<longrightarrow>
                 watchers st = [] \<and> js_index (otherConf st) ''serverOptions'' = so)"
proof -
  let ?so = "JObj [(''name'', JStr (service_name (store inp))),
                   (''version'', JStr (service_version (store inp))),
                   (''acceptable'', JArr [JStr ''application/json''])]"
  have so: "serverOptions inp = Inr (?so, [])"
    using assms by (rule serverOptions_tls_off)
  have any: "serverOptions (inp\<lparr> files := fs \<rparr>) = Inr (?so, [])" for fs
    using assms serverOptions_tls_off [of "inp\<lparr> files := fs \<rparr>"] by simp
  have keys: "own_keys ?so = [''name'', ''version'', ''acceptable'']" by simp
  have none: "js_path ?so [''httpsServerOptions''] = Inr JUndefined"
    by (simp add: js_index_def object_prototype_def)
  have stored: "watchers st = [] \<and> js_index (otherConf st) ''serverOptions'' = ?so"
    if "init inp = Inr st" for st
    using that so by (elim init_success) (simp add: js_index_def)
  from so keys none any stored show ?thesis by blast
qed

theorem crl_ignored_without_tls_witness:
  "\<not> https_enable (store crl_without_tls_inputs)
   \<and> https_crl (store crl_without_tls_inputs) = ''../keys/revoked.pem''
   \<and> init crl_without_tls_inputs = Inr (projr (init crl_without_tls_inputs))
   \<and> watchers (projr (init crl_without_tls_inputs)) = []
   \<and> own_keys (js_index (otherConf (projr (init crl_without_tls_inputs))) ''serverOptions'')
       = [''name'', ''version'', ''acceptable'']"
proof -
  have off: "\<not> https_enable (store crl_without_tls_inputs)"
    by (simp add: crl_without_tls_inputs_def default_config_def)
  have crl: "https_crl (store crl_without_tls_inputs) = ''../keys/revoked.pem''"
    by (simp add: crl_without_tls_inputs_def)
  from init_crl_without_tls obtain st where st: "init crl_without_tls_inputs = Inr st" ..
  from crl_ignored_without_tls [OF off] st
  have "watchers st = [] \<and> own_keys (js_index (otherConf st) ''serverOptions'')
       = [''name'', ''version'', ''acceptable'']" by force
  with off crl st show ?thesis by simp
qed

subsection \<open>The server bundle\<close>

text \<open>
  C2, as amended. When the initialisation completes, the server bundle is all or
  nothing: with TLS disabled it has the properties \<open>name\<close>, \<open>version\<close> and
  \<open>acceptable\<close> only; with TLS enabled its \<open>httpsServerOptions\<close> holds all three
  of key, certificate and trust anchor as buffers with exactly the contents of the
  three configured files (empty when a file is empty), and \<open>requestCert\<close> and
  \<open>rejectUnauthorized\<close> are true. When TLS is enabled and one of the three files
  cannot be read, the initialisation fails with the read error of an unreadable file.
\<close>

theorem server_bundle_all_or_nothing:
  "(\<forall>st. init inp = Inr st \<longrightarrow>
      (if https_enable (store inp)
       then \<exists>k ce ca.
              files inp (path_resolve inp (https_key (store inp))) = Some k
            \<and> files inp (path_resolve inp (https_cert (store inp))) = Some ce
            \<and> files inp (path_resolve inp (https_ca (store inp))) = Some ca
            \<and> js_path (JObj (otherConf st)) [''serverOptions'', ''httpsServerOptions'', ''key'']
                = Inr (JBuf k)
            \<and> js_path (JObj (otherConf st)) [''serverOptions'', ''httpsServerOptions'', ''cert'']
                = Inr (JBuf ce)
            \<and> js_path (JObj (otherConf st)) [''serverOptions'', ''httpsServerOptions'', ''ca'']
                = Inr (JBuf ca)
            \<and> js_path (JObj (otherConf st))
                [''serverOptions'', ''httpsServerOptions'', ''requestCert''] = Inr (JBool True)
            \<and> js_path (JObj (otherConf st))
                [''serverOptions'', ''httpsServerOptions'', ''rejectUnauthorized'']
                = Inr (JBool True)
       else own_keys (js_index (otherConf st) ''serverOptions'')
              = [''name'', ''version'', ''acceptable'']))
   \<and> (https_enable (store inp)
        \<and> (files inp (path_resolve inp (https_key (store inp))) = None
           \<or> files inp (path_resolve inp (https_cert (store inp))) = None
           \<or> files inp (path_resolve inp (https_ca (store inp))) = None)
      \<longrightarrow> (\<exists>p. init inp = Inl (ReadError p) \<and> files inp p = None))"
proof (intro conjI allI impI)
  fix st assume ok: "init inp = Inr st"
  then obtain so ws se where s: "serverOptions inp = Inr (so, ws)"
      "otherConf st =
       [(''loggerOptions'',
           loggerOptions (store inp) (install_serializers (bunyan_stdSerializers inp))),
        (''bodyParserOptions'', bodyParserOptions (store inp)),
        (''throttleOptions'', throttleOptions (store inp)),
        (''serverOptions'', so),
        (''sessionOptions'', se)]"
    by (rule init_success)
  show "if https_enable (store inp)
       then \<exists>k ce ca.
              files inp (path_resolve inp (https_key (store inp))) = Some k
            \<and> files inp (path_resolve inp (https_cert (store inp))) = Some ce
            \<and> files inp (path_resolve inp (https_ca (store inp))) = Some ca
            \<and> js_path (JObj (otherConf st)) [''serverOptions'', ''httpsServerOptions'', ''key'']
                = Inr (JBuf k)
            \<and> js_path (JObj (otherConf st)) [''serverOptions'', ''httpsServerOptions'', ''cert'']
                = Inr (JBuf ce)
            \<and> js_path (JObj (otherConf st)) [''serverOptions'', ''httpsServerOptions'', ''ca'']
                = Inr (JBuf ca)
            \<and> js_path (JObj (otherConf st))
                [''serverOptions'', ''httpsServerOptions'', ''requestCert''] = Inr (JBool True)
            \<and> js_path (JObj (otherConf st))
                [''serverOptions'', ''httpsServerOptions'', ''rejectUnauthorized'']
                = Inr (JBool True)
       else own_keys (js_index (otherConf st) ''serverOptions'')
              = [''name'', ''version'', ''acceptable'']"
  proof (cases "https_enable (store inp)")
    case True
    from True s(1) show ?thesis
      by (rule serverOptions_tls_on) (use True s(2) in \<open>simp add: js_index_def\<close>)
  next
    case False
    with s serverOptions_tls_off [of inp] show ?thesis by (auto simp: js_index_def)
  qed
next
  assume "https_enable (store inp)
        \<and> (files inp (path_resolve inp (https_key (store inp))) = None
           \<or> files inp (path_resolve inp (https_cert (store inp))) = None
           \<or> files inp (path_resolve inp (https_ca (store inp))) = None)"
  then obtain p where "serverOptions inp = Inl (ReadError p)" "files inp p = None"
    using serverOptions_read_failure [of inp] by blast
  then show "\<exists>p. init inp = Inl (ReadError p) \<and> files inp p = None"
    using init_failure by blast
qed

theorem server_bundle_all_or_nothing_witness:
  "init tls_inputs = Inr (projr (init tls_inputs))
   \<and> js_path (JObj (otherConf (projr (init tls_inputs))))
        [''serverOptions'', ''httpsServerOptions'', ''key''] = Inr (JBuf sample_pem)
   \<and> js_path (JObj (otherConf (projr (init tls_inputs))))
        [''serverOptions'', ''httpsServerOptions'', ''rejectUnauthorized''] = Inr (JBool True)
   \<and> init plain_inputs = Inr (projr (init plain_inputs))
   \<and> own_keys (js_index (otherConf (projr (init plain_inputs))) ''serverOptions'')
       = [''name'', ''version'', ''acceptable'']
   \<and> init missing_cert_inputs = Inl (ReadError ''/srv/lib/crt.pem'')"
proof -
  from init_tls_inputs obtain st where st: "init tls_inputs = Inr st" ..
  have on: "https_enable (store tls_inputs)" by (simp add: tls_inputs_def tls_config_def)
  have key: "files tls_inputs (path_resolve tls_inputs (https_key (store tls_inputs))) = Some sample_pem"
    by (simp add: tls_inputs_def tls_config_def tls_files_def in_lib_def)
  from server_bundle_all_or_nothing [of tls_inputs] st on key
  have 1: "js_path (JObj (otherConf st)) [''serverOptions'', ''httpsServerOptions'', ''key'']
             = Inr (JBuf sample_pem)
         \<and> js_path (JObj (otherConf st))
             [''serverOptions'', ''httpsServerOptions'', ''rejectUnauthorized''] = Inr (JBool True)"
    by auto
  from init_plain_inputs obtain st2 where st2: "init plain_inputs = Inr st2" ..
  have off: "\<not> https_enable (store plain_inputs)"
    by (simp add: plain_inputs_def default_config_def)
  from server_bundle_all_or_nothing [of plain_inputs] st2 off
  have 2: "own_keys (js_index (otherConf st2) ''serverOptions'') = [''name'', ''version'', ''acceptable'']"
    by auto
  have on3: "https_enable (store missing_cert_inputs)"
    by (simp add: missing_cert_inputs_def tls_inputs_def tls_config_def)
  have none3: "files missing_cert_inputs
      (path_resolve missing_cert_inputs (https_cert (store missing_cert_inputs))) = None"
    by (simp add: missing_cert_inputs_def tls_inputs_def tls_config_def in_lib_def)
  from server_bundle_all_or_nothing [of missing_cert_inputs] on3 none3
  obtain p where p: "init missing_cert_inputs = Inl (ReadError p)" "files missing_cert_inputs p = None"
    by blast
  have "init missing_cert_inputs = Inl (ReadError ''/srv/lib/crt.pem'')"
    by (rule init_failure)
       (simp add: serverOptions_def missing_cert_inputs_def tls_inputs_def tls_config_def
          tls_files_def in_lib_def readFileSync_def default_config_def)
  with st 1 st2 2 p show ?thesis by simp
qed

text \<open>
  The claim as first stated asked for non-empty buffers. The source does not check
  what it reads: with TLS enabled and an empty key file the initialisation completes
  and the key material is the empty buffer.
\<close>

theorem tls_material_may_be_empty:
  "https_enable (store empty_key_inputs)
   \<and> init empty_key_inputs = Inr (projr (init empty_key_inputs))
   \<and> js_path (JObj (otherConf (projr (init empty_key_inputs))))
        [''serverOptions'', ''httpsServerOptions'', ''key''] = Inr (JBuf [])"
proof -
  from init_empty_key_inputs obtain st where st: "init empty_key_inputs = Inr st" ..
  have on: "https_enable (store empty_key_inputs)"
    by (simp add: empty_key_inputs_def tls_inputs_def tls_config_def)
  from st obtain so ws where s: "serverOptions empty_key_inputs = Inr (so, ws)"
     "js_index (otherConf st) ''serverOptions'' = so"
    by (elim init_success) (simp add: js_index_def)
  from s(1) have "js_path so [''httpsServerOptions'', ''key''] = Inr (JBuf [])"
    by (auto simp: serverOptions_def empty_key_inputs_def tls_inputs_def tls_config_def
        tls_files_def in_lib_def readFileSync_def default_config_def js_index_def)
  with s(2) have "js_path (JObj (otherConf st))
        [''serverOptions'', ''httpsServerOptions'', ''key''] = Inr (JBuf [])" by simp
  with on st show ?thesis by simp
qed

subsection \<open>The reload of the revocation list\<close>

text \<open>
  C3, as amended. At every change event on the watched path at which the file can be
  read, the callback of the armed watch replaces the server bundle's revocation
  buffer by one holding exactly the file's current contents, and emits one \<open>change\<close>
  event with the argument \<open>https.crl\<close>: each subscription to \<open>change\<close> gets one call
  with that argument, and nothing else is delivered. The watched path is the resolved
  \<open>https.crl\<close>.
\<close>

theorem crl_reload_replaces_and_notifies:
  assumes "reachable inp st" and "p \<in> set (watchers st)" and "fs p = Some buf"
  shows "p = path_resolve inp (https_crl (store inp))
     \<and> (\<exists>st'. crl_watch_callback fs p st = Inr st'
          \<and> js_path (JObj (otherConf st')) [''serverOptions'', ''httpsServerOptions'', ''crl'']
              = Inr (JBuf buf)
          \<and> delivered (emitter st')
              = delivered (emitter st)
                @ map (\<lambda>l. (l, [JStr ''https.crl''])) (subscribers ''change'' (emitter st))
          \<and> listeners (emitter st') = listeners (emitter st))"
proof -
  from reachable_tls [OF assms(1)] assms(2)
  have on: "https_enable (store inp)" and p: "p = path_resolve inp (https_crl (store inp))"
    by (auto split: if_splits)
  from reachable_tls [OF assms(1)] on obtain so hso where
    m: "map_of (otherConf st) ''serverOptions'' = Some (JObj so)"
       "map_of so ''httpsServerOptions'' = Some (JObj hso)" by blast
  let ?st' = "st\<lparr> otherConf :=
                obj_set ''serverOptions''
                  (JObj (obj_set ''httpsServerOptions'' (JObj (obj_set ''crl'' (JBuf buf) hso)) so))
                  (otherConf st),
              emitter := emitter_emit ''change'' [JStr ''https.crl''] (emitter st) \<rparr>"
  from m assms(3) have run: "crl_watch_callback fs p st = Inr ?st'"
    by (rule callback_success)
  have buf: "js_path (JObj (otherConf ?st')) [''serverOptions'', ''httpsServerOptions'', ''crl'']
              = Inr (JBuf buf)"
    by (simp add: js_index_obj_set)
  have del: "delivered (emitter ?st')
              = delivered (emitter st)
                @ map (\<lambda>l. (l, [JStr ''https.crl''])) (subscribers ''change'' (emitter st))"
    by (simp add: emitter_emit_def)
  have lis: "listeners (emitter ?st') = listeners (emitter st)"
    by (simp add: emitter_emit_def)
  from p run buf del lis show ?thesis by blast
qed

theorem crl_reload_replaces_and_notifies_witness:
  "js_path (JObj (otherConf (projr (crl_watch_callback crl_replaced ''/srv/lib/crl.pem'' tls_state))))
      [''serverOptions'', ''httpsServerOptions'', ''crl''] = Inr (JBuf [4, 5, 6, 7])
   \<and> delivered (emitter (projr (crl_watch_callback crl_replaced ''/srv/lib/crl.pem'' tls_state)))
       = [(1, [JStr ''https.crl'']), (2, [JStr ''https.crl''])]"
proof -
  have w: "''/srv/lib/crl.pem'' \<in> set (watchers tls_state)" by (simp add: watchers_tls_state)
  have f: "crl_replaced ''/srv/lib/crl.pem'' = Some [4, 5, 6, 7]" by (simp add: crl_replaced_def)
  from crl_reload_replaces_and_notifies [where fs = crl_replaced, OF reachable_tls_state w f]
  obtain st' where s: "crl_watch_callback crl_replaced ''/srv/lib/crl.pem'' tls_state = Inr st'"
    "js_path (JObj (otherConf st')) [''serverOptions'', ''httpsServerOptions'', ''crl'']
              = Inr (JBuf [4, 5, 6, 7])"
    "delivered (emitter st')
              = delivered (emitter tls_state)
                @ map (\<lambda>l. (l, [JStr ''https.crl''])) (subscribers ''change'' (emitter tls_state))"
    by blast
  from s show ?thesis by (simp add: emitter_tls_state subscribers_def)
qed

text \<open>
  The claim as first stated spoke of every change event. The removal of the file is
  one, and there the callback throws the read error: it returns no state, so the
  buffer is not replaced and no event is emitted.
\<close>

theorem reload_fails_when_list_unreadable:
  "reachable tls_inputs tls_state
   \<and> ''/srv/lib/crl.pem'' \<in> set (watchers tls_state)
   \<and> crl_watch_callback crl_removed ''/srv/lib/crl.pem'' tls_state
       = Inl (ReadError ''/srv/lib/crl.pem'')"
proof -
  from tls_state_bundle obtain so hso where
    m: "map_of (otherConf tls_state) ''serverOptions'' = Some (JObj so)"
       "map_of so ''httpsServerOptions'' = Some (JObj hso)" by blast
  have "crl_removed ''/srv/lib/crl.pem'' = None" by (simp add: crl_removed_def)
  with m have "crl_watch_callback crl_removed ''/srv/lib/crl.pem'' tls_state
       = Inl (ReadError ''/srv/lib/crl.pem'')" by (rule callback_read_failure)
  with reachable_tls_state show ?thesis by (simp add: watchers_tls_state)
qed

text \<open>
  C10. A reload changes nothing but the \<open>crl\<close> property of the server bundle's
  \<open>httpsServerOptions\<close>: the validated store, the watches, the serializer table and
  the subscriptions are what they were; \<open>otherConf\<close> has the same property names and,
  under every name but \<open>serverOptions\<close>, the same value; the server bundle has the
  same value under every name but \<open>httpsServerOptions\<close>; and \<open>httpsServerOptions\<close>
  has the same value under every name but \<open>crl\<close>.
\<close>

theorem reload_frame:
  assumes "crl_watch_callback fs p st = Inr st'"
  shows "convictConf st' = convictConf st
     \<and> watchers st' = watchers st
     \<and> stdSerializers st' = stdSerializers st
     \<and> listeners (emitter st') = listeners (emitter st)
     \<and> map fst (otherConf st') = map fst (otherConf st)
     \<and> (\<forall>k. k \<noteq> ''serverOptions'' \<longrightarrow>
           js_index (otherConf st') k = js_index (otherConf st) k)
     \<and> (\<forall>k. k \<noteq> ''httpsServerOptions'' \<longrightarrow>
           js_path (JObj (otherConf st')) [''serverOptions'', k]
             = js_path (JObj (otherConf st)) [''serverOptions'', k])
     \<and> (\<forall>k. k \<noteq> ''crl'' \<longrightarrow>
           js_path (JObj (otherConf st')) [''serverOptions'', ''httpsServerOptions'', k]
             = js_path (JObj (otherConf st)) [''serverOptions'', ''httpsServerOptions'', k])"
proof -
  from assms obtain so hso buf where r:
    "js_index (otherConf st) ''serverOptions'' = JObj so"
    "js_index so ''httpsServerOptions'' = hso"
    "st' = st\<lparr> otherConf :=
                obj_set ''serverOptions''
                  (JObj (obj_set ''httpsServerOptions'' (set_prop hso ''crl'' (JBuf buf)) so))
                  (otherConf st),
              emitter := emitter_emit ''change'' [JStr ''https.crl''] (emitter st) \<rparr>"
    by (rule callback_result)
  from r(1) have own: "map_of (otherConf st) ''serverOptions'' = Some (JObj so)"
    by (rule js_index_own) (simp_all add: proto_serverOptions)
  have 1: "convictConf st' = convictConf st" "watchers st' = watchers st"
    "stdSerializers st' = stdSerializers st"
    using r(3) by simp_all
  have 2: "listeners (emitter st') = listeners (emitter st)"
    using r(3) by (simp add: emitter_emit_def)
  have 3: "map fst (otherConf st') = map fst (otherConf st)"
    using r(3) own by (simp add: keys_obj_set)
  have 4: "js_index (otherConf st') k = js_index (otherConf st) k" if "k \<noteq> ''serverOptions''" for k
    using r(3) that by (simp add: js_index_obj_set)
  have 5: "js_path (JObj (otherConf st')) [''serverOptions'', k]
             = js_path (JObj (otherConf st)) [''serverOptions'', k]"
    if "k \<noteq> ''httpsServerOptions''" for k
    using r that by (simp add: js_index_obj_set)
  have 6: "js_path (JObj (otherConf st')) [''serverOptions'', ''httpsServerOptions'', k]
             = js_path (JObj (otherConf st)) [''serverOptions'', ''httpsServerOptions'', k]"
    if "k \<noteq> ''crl''" for k
    using r that js_get_set_prop_other [of k "''crl''" hso "JBuf buf"]
    by (simp add: js_index_obj_set)
  from 1 2 3 4 5 6 show ?thesis by blast
qed

theorem reload_frame_witness:
  "crl_watch_callback crl_replaced ''/srv/lib/crl.pem'' tls_state
     = Inr (projr (crl_watch_callback crl_replaced ''/srv/lib/crl.pem'' tls_state))
   \<and> convictConf (projr (crl_watch_callback crl_replaced ''/srv/lib/crl.pem'' tls_state))
       = convictConf tls_state
   \<and> js_index (otherConf (projr (crl_watch_callback crl_replaced ''/srv/lib/crl.pem'' tls_state)))
        ''throttleOptions''
       = js_index (otherConf tls_state) ''throttleOptions''
   \<and> js_path (JObj (otherConf (projr (crl_watch_callback crl_replaced ''/srv/lib/crl.pem'' tls_state))))
        [''serverOptions'', ''httpsServerOptions'', ''key'']
       = js_path (JObj (otherConf tls_state)) [''serverOptions'', ''httpsServerOptions'', ''key'']"
proof -
  from reload_tls_state obtain st' where
    s: "crl_watch_callback crl_replaced ''/srv/lib/crl.pem'' tls_state = Inr st'" ..
  from reload_frame [OF s]
  have "convictConf st' = convictConf tls_state
     \<and> js_index (otherConf st') ''throttleOptions'' = js_index (otherConf tls_state) ''throttleOptions''
     \<and> js_path (JObj (otherConf st')) [''serverOptions'', ''httpsServerOptions'', ''key'']
       = js_path (JObj (otherConf tls_state)) [''serverOptions'', ''httpsServerOptions'', ''key'']"
    by simp
  with s show ?thesis by simp
qed

subsection \<open>The accessor\<close>

text \<open>
  C4. The claim is that \<open>get\<close> returns the bundle when the name is a bundle's and
  asks the validated store in every other case, a name found by neither being reported
  as not found. The parts that hold are \<open>get_bundle\<close>, \<open>get_delegates\<close>,
  \<open>convict_get_https_enable\<close> and \<open>convict_get_bundle_path\<close> above. The source
  tests \<open>name in otherConf\<close>, and that also holds for the names an object literal
  inherits. After an initialisation with the defaults, \<open>toString\<close> is no bundle's name
  and no own property of \<open>otherConf\<close>, the store reports it as not found, and yet
  \<open>get\<close> returns a value: the inherited function.
\<close>

theorem get_inherited_name:
  "''toString'' \<notin> set bundle_names
   \<and> init plain_inputs = Inr (projr (init plain_inputs))
   \<and> map_of (otherConf (projr (init plain_inputs))) ''toString'' = None
   \<and> get (projr (init plain_inputs)) ''toString'' = Inr (JRef ''Object.prototype.toString'')
   \<and> convict_get (convictConf (projr (init plain_inputs))) ''toString''
       = Inl (Error ''cannot find configuration param toString'')"
proof -
  from init_plain_inputs obtain st where st: "init plain_inputs = Inr st" ..
  have 1: "''toString'' \<notin> set bundle_names" by (simp add: bundle_names_def)
  from st have 2: "map_of (otherConf st) ''toString'' = None"
    by (elim init_success) simp
  from 2 have 3: "get st ''toString'' = Inr (JRef ''Object.prototype.toString'')"
    by (simp add: get_def js_in_def js_index_def object_prototype_def)
  have 4: "convict_get (convictConf st) ''toString''
       = Inl (Error ''cannot find configuration param toString'')"
    by (simp add: convict_get_def conf_tree_def)
  from st 1 2 3 4 show ?thesis by simp
qed

subsection \<open>The layered sources\<close>

text \<open>
  C5. For every entry of the schema that declares a command-line flag and an
  environment variable: when the flag is supplied, the resolved value is the flag's,
  whatever the other sources hold; without the flag, it is the environment variable's
  when that is set; without both, it is the config file's when a file was given and has
  the key; without all three, it is the entry's default. The resolved store holds that
  value under the entry's key.
\<close>

theorem resolution_precedence:
  "\<forall>e \<in> set schema. \<forall>a n. entry_arg e = Some a \<and> entry_env e = Some n \<longrightarrow>
      (\<forall>v. argv src a = Some v \<longrightarrow> resolve_entry src e = v)
    \<and> (\<forall>v. argv src a = None \<and> environ src n = Some v \<longrightarrow> resolve_entry src e = v)
    \<and> (\<forall>f v. argv src a = None \<and> environ src n = None
              \<and> cfg_file src = Some f \<and> f (entry_key e) = Some v \<longrightarrow>
            resolve_entry src e = v)
    \<and> (argv src a = None \<and> environ src n = None
         \<and> (case cfg_file src of None \<Rightarrow> True | Some f \<Rightarrow> f (entry_key e) = None) \<longrightarrow>
            resolve_entry src e = entry_default e)
    \<and> map_of (map (\<lambda>(e', v). (entry_key e', v)) (resolve src)) (entry_key e)
         = Some (resolve_entry src e)"
proof (intro ballI allI impI)
  fix e a n
  assume e: "e \<in> set schema" and "entry_arg e = Some a \<and> entry_env e = Some n"
  then have an: "entry_arg e = Some a" "entry_env e = Some n" by simp_all
  have 1: "resolve_entry src e = v" if "argv src a = Some v" for v
    using that an by (simp add: resolve_entry_def from_arg_def)
  have 2: "resolve_entry src e = v" if "argv src a = None \<and> environ src n = Some v" for v
    using that an by (simp add: resolve_entry_def from_arg_def from_env_def)
  have 3: "resolve_entry src e = v"
    if "argv src a = None \<and> environ src n = None \<and> cfg_file src = Some f \<and> f (entry_key e) = Some v"
    for f v
    using that an by (simp add: resolve_entry_def from_arg_def from_env_def from_file_def)
  have 4: "resolve_entry src e = entry_default e"
    if "argv src a = None \<and> environ src n = None
         \<and> (case cfg_file src of None \<Rightarrow> True | Some f \<Rightarrow> f (entry_key e) = None)"
    using that an
    by (auto simp: resolve_entry_def from_arg_def from_env_def from_file_def split: option.splits)
  have "map (\<lambda>(e', v). (entry_key e', v)) (resolve src)
          = map (\<lambda>e'. (entry_key e', resolve_entry src e')) schema"
    by (simp add: resolve_def)
  moreover have "map_of (map (\<lambda>e'. (entry_key e', resolve_entry src e')) schema) (entry_key e)
          = Some (resolve_entry src e)"
  proof (rule map_of_is_SomeI)
    show "distinct (map fst (map (\<lambda>e'. (entry_key e', resolve_entry src e')) schema))"
      using schema_keys_distinct by (simp add: comp_def)
    show "(entry_key e, resolve_entry src e)
            \<in> set (map (\<lambda>e'. (entry_key e', resolve_entry src e')) schema)"
      using e by auto
  qed
  ultimately have 5: "map_of (map (\<lambda>(e', v). (entry_key e', v)) (resolve src)) (entry_key e)
         = Some (resolve_entry src e)" by simp
  from 1 2 3 4 5 show "(\<forall>v. argv src a = Some v \<longrightarrow> resolve_entry src e = v)
    \<and> (\<forall>v. argv src a = None \<and> environ src n = Some v \<longrightarrow> resolve_entry src e = v)
    \<and> (\<forall>f v. argv src a = None \<and> environ src n = None
              \<and> cfg_file src = Some f \<and> f (entry_key e) = Some v \<longrightarrow>
            resolve_entry src e = v)
    \<and> (argv src a = None \<and> environ src n = None
         \<and> (case cfg_file src of None \<Rightarrow> True | Some f \<Rightarrow> f (entry_key e) = None) \<longrightarrow>
            resolve_entry src e = entry_default e)
    \<and> map_of (map (\<lambda>(e', v). (entry_key e', v)) (resolve src)) (entry_key e)
         = Some (resolve_entry src e)" by blast
qed

theorem resolution_precedence_witness:
  "resolve_entry all_sources port_entry = JNum 8080
   \<and> resolve_entry (all_sources\<lparr> argv := Map.empty \<rparr>) port_entry = JNum 8081
   \<and> resolve_entry (all_sources\<lparr> argv := Map.empty, environ := Map.empty \<rparr>) port_entry = JNum 8082
   \<and> resolve_entry (all_sources\<lparr> argv := Map.empty, environ := Map.empty, cfg_file := None \<rparr>)
        port_entry = JNum 80"
proof -
  have an: "entry_arg port_entry = Some ''port'' \<and> entry_env port_entry = Some ''BLPAPI_HTTP_PORT''"
    by (simp add: port_entry_def entry_def)
  have k: "entry_key port_entry = ''port''" "entry_default port_entry = JNum 80"
    by (simp_all add: port_entry_def entry_def)
  have Q: "(\<forall>v. argv src ''port'' = Some v \<longrightarrow> resolve_entry src port_entry = v)
    \<and> (\<forall>v. argv src ''port'' = None \<and> environ src ''BLPAPI_HTTP_PORT'' = Some v \<longrightarrow>
          resolve_entry src port_entry = v)
    \<and> (\<forall>f v. argv src ''port'' = None \<and> environ src ''BLPAPI_HTTP_PORT'' = None
              \<and> cfg_file src = Some f \<and> f (entry_key port_entry) = Some v \<longrightarrow>
            resolve_entry src port_entry = v)
    \<and> (argv src ''port'' = None \<and> environ src ''BLPAPI_HTTP_PORT'' = None
         \<and> (case cfg_file src of None \<Rightarrow> True | Some f \<Rightarrow> f (entry_key port_entry) = None) \<longrightarrow>
            resolve_entry src port_entry = entry_default port_entry)
    \<and> map_of (map (\<lambda>(e', v). (entry_key e', v)) (resolve src)) (entry_key port_entry)
         = Some (resolve_entry src port_entry)" for src
    using bspec [OF resolution_precedence [of src] port_entry_in_schema] an
    by (elim allE impE) assumption+
  have 1: "resolve_entry all_sources port_entry = JNum 8080"
    using conjunct1 [OF Q [of all_sources]] by (simp add: all_sources_def)
  have 2: "resolve_entry (all_sources\<lparr> argv := Map.empty \<rparr>) port_entry = JNum 8081"
    using conjunct1 [OF conjunct2 [OF Q [of "all_sources\<lparr> argv := Map.empty \<rparr>"]]]
    by (simp add: all_sources_def)
  have 3: "resolve_entry (all_sources\<lparr> argv := Map.empty, environ := Map.empty \<rparr>) port_entry
             = JNum 8082"
    using conjunct1 [OF conjunct2 [OF conjunct2
        [OF Q [of "all_sources\<lparr> argv := Map.empty, environ := Map.empty \<rparr>"]]]]
    by (simp add: all_sources_def k)
  have 4: "resolve_entry (all_sources\<lparr> argv := Map.empty, environ := Map.empty, cfg_file := None \<rparr>)
        port_entry = JNum 80"
    using conjunct1 [OF conjunct2 [OF conjunct2 [OF conjunct2
        [OF Q [of "all_sources\<lparr> argv := Map.empty, environ := Map.empty, cfg_file := None \<rparr>"]]]]]
    by (simp add: all_sources_def k)
  from 1 2 3 4 show ?thesis by (simp only: simp_thms)
qed

subsection \<open>Validation\<close>

text \<open>
  C6. For every entry of the schema with the port format, the format check accepts
  exactly the integers from 1 to 65535, among them 1 and 65535, and rejects 0 and
  70000; for every entry with the IP-address format it rejects a string that is no IP
  address. Validation passes exactly when every value passes its entry's check, and
  otherwise returns the error of the first failing entry, with that entry's key and
  format, whatever the store holds before and after it. The error is fatal: when the
  resolved value of an entry fails its check and the entries before it pass, the
  initialisation block ends with the validation error of that entry, and a completed
  initialisation has validated every entry of the schema.
\<close>

theorem port_and_ip_validation:
  "\<forall>e \<in> set schema.
     (entry_format e = F_port \<longrightarrow>
        (\<forall>v. check_format ip (entry_format e) v
               \<longleftrightarrow> (\<exists>n. v = JNum n \<and> 1 \<le> n \<and> n \<le> 65535))
      \<and> check_format ip (entry_format e) (JNum 1)
      \<and> check_format ip (entry_format e) (JNum 65535)
      \<and> \<not> check_format ip (entry_format e) (JNum 0)
      \<and> \<not> check_format ip (entry_format e) (JNum 70000))
   \<and> (entry_format e = F_ipaddress \<longrightarrow>
        (\<forall>s. \<not> ip s \<longrightarrow> \<not> check_format ip (entry_format e) (JStr s)))
   \<and> (\<forall>resolved. validate ip resolved = Inr ()
          \<longleftrightarrow> (\<forall>(e', v') \<in> set resolved. check_format ip (entry_format e') v'))
   \<and> (\<forall>pre post v.
          (\<forall>(e', v') \<in> set pre. check_format ip (entry_format e') v')
          \<and> \<not> check_format ip (entry_format e) v \<longrightarrow>
            validate ip (pre @ (e, v) # post)
              = Inl (ValidationError (entry_key e) (entry_format e)))
   \<and> (\<forall>src fs pr ser pre post.
          schema = pre @ e # post
          \<and> (\<forall>e' \<in> set pre. check_format ip (entry_format e') (resolve_entry src e'))
          \<and> \<not> check_format ip (entry_format e) (resolve_entry src e) \<longrightarrow>
            startup ip src fs pr ser
              = Inl (ValidationError (entry_key e) (entry_format e)))
   \<and> (\<forall>src fs pr ser st.
          startup ip src fs pr ser = Inr st \<longrightarrow>
            check_format ip (entry_format e) (resolve_entry src e))"
proof (intro ballI conjI impI allI)
  fix e :: schema_entry and v assume "entry_format e = F_port"
  then show "check_format ip (entry_format e) v
               \<longleftrightarrow> (\<exists>n. v = JNum n \<and> 1 \<le> n \<and> n \<le> 65535)"
    by (cases v) auto
next
  fix e :: schema_entry assume "entry_format e = F_port"
  then show "check_format ip (entry_format e) (JNum 1)" by simp
next
  fix e :: schema_entry assume "entry_format e = F_port"
  then show "check_format ip (entry_format e) (JNum 65535)" by simp
next
  fix e :: schema_entry assume "entry_format e = F_port"
  then show "\<not> check_format ip (entry_format e) (JNum 0)" by simp
next
  fix e :: schema_entry assume "entry_format e = F_port"
  then show "\<not> check_format ip (entry_format e) (JNum 70000)" by simp
next
  fix e :: schema_entry and s assume "entry_format e = F_ipaddress" and "\<not> ip s"
  then show "\<not> check_format ip (entry_format e) (JStr s)" by simp
next
  fix resolved
  show "validate ip resolved = Inr ()
          \<longleftrightarrow> (\<forall>(e', v') \<in> set resolved. check_format ip (entry_format e') v')"
    by (rule validate_accepts)
next
  fix e :: schema_entry and pre post :: "(schema_entry \<times> jsval) list" and v
  assume "(\<forall>(e', v') \<in> set pre. check_format ip (entry_format e') v')
          \<and> \<not> check_format ip (entry_format e) v"
  then show "validate ip (pre @ (e, v) # post)
              = Inl (ValidationError (entry_key e) (entry_format e))"
    using validate_first_failure [of pre ip e v post] by simp
next
  fix e :: schema_entry and pre post :: "schema_entry list" and src fs pr ser
  assume "schema = pre @ e # post
          \<and> (\<forall>e' \<in> set pre. check_format ip (entry_format e') (resolve_entry src e'))
          \<and> \<not> check_format ip (entry_format e) (resolve_entry src e)"
  then show "startup ip src fs pr ser
              = Inl (ValidationError (entry_key e) (entry_format e))"
    using startup_validation_failure [of pre e post ip src fs pr ser] by simp
next
  fix e :: schema_entry and src fs pr ser st
  assume e: "e \<in> set schema" and ok: "startup ip src fs pr ser = Inr st"
  from ok have "validate ip (resolve src) = Inr ()" by (rule startup_never_skips_validation)
  then have "\<forall>(e', v') \<in> set (resolve src). check_format ip (entry_format e') v'"
    by (simp only: validate_accepts)
  moreover from e have "(e, resolve_entry src e) \<in> set (resolve src)"
    by (auto simp: resolve_def)
  ultimately show "check_format ip (entry_format e) (resolve_entry src e)" by auto
qed

theorem port_and_ip_validation_witness:
  "check_format loopback_only (entry_format port_entry) (JNum 1)
   \<and> check_format loopback_only (entry_format port_entry) (JNum 65535)
   \<and> startup loopback_only port_70000_sources no_files in_lib sample_serializers
       = Inl (ValidationError ''port'' F_port)
   \<and> startup loopback_only bad_host_sources no_files in_lib sample_serializers
       = Inl (ValidationError ''api.host'' F_ipaddress)"
proof -
  have f: "entry_format port_entry = F_port" by (simp add: port_entry_def entry_def)
  have g: "entry_format host_entry = F_ipaddress" by (simp add: host_entry_def entry_def)
  have k: "entry_key port_entry = ''port''" "entry_key host_entry = ''api.host''"
    by (simp_all add: port_entry_def host_entry_def entry_def)
  note P = bspec [OF port_and_ip_validation [of loopback_only] port_entry_in_schema]
  note H = bspec [OF port_and_ip_validation [of loopback_only] host_entry_in_schema]
  from mp [OF conjunct1 [OF P] f]
  have 1: "check_format loopback_only (entry_format port_entry) (JNum 1)
      \<and> check_format loopback_only (entry_format port_entry) (JNum 65535)"
    by (elim conjE) (intro conjI, assumption+)
  have bad_port: "schema = [entry ''api.host'' F_ipaddress (JStr ''127.0.0.1'')
        (Some ''BLPAPI_HTTP_API_HOST'') (Some ''api-host''),
      entry ''api.port'' F_port (JNum 8194)
        (Some ''BLPAPI_HTTP_API_PORT'') (Some ''api-port''),
      entry ''api.authenticationMode'' F_String (JStr ''APPLICATION_ONLY'')
        (Some ''BLPAPI_HTTP_API_AUTHENTICATION_MODE'') (Some ''api-authenticationMode''),
      entry ''api.authenticationAppName'' F_String (JStr [])
        (Some ''BLPAPI_HTTP_API_AUTHENTICATION_APPNAME'') (Some ''api-authenticationAppName'')]
     @ port_entry # drop 5 schema
    \<and> (\<forall>e' \<in> set [entry ''api.host'' F_ipaddress (JStr ''127.0.0.1'')
        (Some ''BLPAPI_HTTP_API_HOST'') (Some ''api-host''),
      entry ''api.port'' F_port (JNum 8194)
        (Some ''BLPAPI_HTTP_API_PORT'') (Some ''api-port''),
      entry ''api.authenticationMode'' F_String (JStr ''APPLICATION_ONLY'')
        (Some ''BLPAPI_HTTP_API_AUTHENTICATION_MODE'') (Some ''api-authenticationMode''),
      entry ''api.authenticationAppName'' F_String (JStr [])
        (Some ''BLPAPI_HTTP_API_AUTHENTICATION_APPNAME'') (Some ''api-authenticationAppName'')].
          check_format loopback_only (entry_format e') (resolve_entry port_70000_sources e'))
    \<and> \<not> check_format loopback_only (entry_format port_entry)
          (resolve_entry port_70000_sources port_entry)"
    using schema_before_port
    by (simp add: entry_def port_entry_def resolve_entry_def from_arg_def from_env_def
        from_file_def port_70000_sources_def no_sources_def loopback_only_def)
  have bad_host: "schema = [] @ host_entry # drop 1 schema
    \<and> (\<forall>e' \<in> set []. check_format loopback_only (entry_format e')
          (resolve_entry bad_host_sources e'))
    \<and> \<not> check_format loopback_only (entry_format host_entry)
          (resolve_entry bad_host_sources host_entry)"
    using schema_before_host
    by (simp add: entry_def host_entry_def resolve_entry_def from_arg_def from_env_def
        from_file_def bad_host_sources_def no_sources_def loopback_only_def)
  note P5 = conjunct1 [OF conjunct2 [OF conjunct2 [OF conjunct2 [OF conjunct2 [OF P]]]]]
  note H5 = conjunct1 [OF conjunct2 [OF conjunct2 [OF conjunct2 [OF conjunct2 [OF H]]]]]
  from P5 [rule_format, OF bad_port] k(1) f
  have 2: "startup loopback_only port_70000_sources no_files in_lib sample_serializers
       = Inl (ValidationError ''port'' F_port)" by (simp only:)
  from H5 [rule_format, OF bad_host] k(2) g
  have 3: "startup loopback_only bad_host_sources no_files in_lib sample_serializers
       = Inl (ValidationError ''api.host'' F_ipaddress)" by (simp only:)
  from 1 2 3 show ?thesis by (simp only: simp_thms)
qed

end
